theory Spec2Isabelle
  imports Complex_Main "HOL-Library.Log_Nat"
begin

section \<open>Python values used by the conversation API\<close>

subsection \<open>Floats\<close>

text \<open>
  A Python \<open>float\<close> is an IEEE-754 binary64 number. A finite one is carried by the
  rational it denotes (the sign of zero is not kept: no operation of the program
  tells \<open>-0.0\<close> from \<open>0.0\<close>); the two infinities and NaN are separate values.
\<close>

datatype pyfloat = Finite rat | PosInf | NegInf | NaN

definition pow2 :: "int \<Rightarrow> rat" where
  "pow2 k = (if 0 \<le> k then 2 ^ nat k else 1 / 2 ^ nat (- k))"

text \<open>The binary exponent of a positive rational: \<open>2 ^ e \<le> a < 2 ^ (e + 1)\<close>.\<close>

definition floor_log2 :: "rat \<Rightarrow> int" where
  "floor_log2 a =
     (let (n, d) = quotient_of a; k = bitlen n - bitlen d
      in if pow2 k \<le> a then k else k - 1)"

definition round_half_even :: "rat \<Rightarrow> int" where
  "round_half_even x =
     (let f = \<lfloor>x\<rfloor>; r = x - of_int f
      in if r < 1 / 2 then f
         else if 1 / 2 < r then f + 1
         else if even f then f else f + 1)"

text \<open>
  Rounding of an exact result to binary64, to nearest with ties to even: 53 bits of
  significand, exponents from \<open>-1022\<close> (below it the spacing stays \<open>2 ^ -1074\<close>, the
  subnormal range) to \<open>1023\<close> (above it the result is an infinity).
\<close>

definition round_double :: "rat \<Rightarrow> pyfloat" where
  "round_double q =
     (if q = 0 then Finite 0
      else let a = \<bar>q\<bar>;
               e = max (floor_log2 a) (- 1022);
               m = round_half_even (a * pow2 (52 - e))
           in if 1023 < e \<or> (e = 1023 \<and> 2 ^ 53 \<le> m)
              then (if 0 < q then PosInf else NegInf)
              else Finite (sgn q * of_int m * pow2 (e - 52)))"

definition float_sgn :: "pyfloat \<Rightarrow> int" where
  "float_sgn x = (case x of Finite a \<Rightarrow> (if a = 0 then 0 else if 0 < a then 1 else - 1)
                  | PosInf \<Rightarrow> 1 | NegInf \<Rightarrow> - 1 | NaN \<Rightarrow> 0)"

text \<open>\<open>x * y\<close> on floats: it never raises; overflow gives an infinity.\<close>

definition float_mul :: "pyfloat \<Rightarrow> pyfloat \<Rightarrow> pyfloat" where
  "float_mul x y =
     (case (x, y) of
        (Finite a, Finite b) \<Rightarrow> round_double (a * b)
      | _ \<Rightarrow> if x = NaN \<or> y = NaN \<or> float_sgn x * float_sgn y = 0 then NaN
             else if 0 < float_sgn x * float_sgn y then PosInf else NegInf)"

subsection \<open>Exceptions and conversions\<close>

datatype exn =
    HTTPException int string
  | IndexError
  | OverflowError
  | ValueError
  | TypeError
  | RequestValidationError

definition bind :: "exn + 'a \<Rightarrow> ('a \<Rightarrow> exn + 'b) \<Rightarrow> exn + 'b" where
  "bind r f = (case r of Inl e \<Rightarrow> Inl e | Inr x \<Rightarrow> f x)"

text \<open>\<open>int(x)\<close> of a float truncates towards zero and raises on NaN and the infinities.\<close>

definition trunc_rat :: "rat \<Rightarrow> int" where
  "trunc_rat q = (if 0 \<le> q then \<lfloor>q\<rfloor> else \<lceil>q\<rceil>)"

definition int_of_float :: "pyfloat \<Rightarrow> exn + int" where
  "int_of_float x = (case x of Finite q \<Rightarrow> Inr (trunc_rat q)
                      | NaN \<Rightarrow> Inl ValueError
                      | _ \<Rightarrow> Inl OverflowError)"

text \<open>An \<open>int\<close> operand of a float operation is converted first; too large an \<open>int\<close> raises.\<close>

definition float_of_int :: "int \<Rightarrow> exn + pyfloat" where
  "float_of_int i = (case round_double (of_int i) of Finite q \<Rightarrow> Inr (Finite q)
                      | _ \<Rightarrow> Inl OverflowError)"

text \<open>A float literal of the source denotes the double nearest to its decimal value.\<close>

definition float_lit :: "rat \<Rightarrow> pyfloat" where
  "float_lit q = round_double q"

datatype pyval = PyInt int | PyFloat pyfloat | PyStr string

text \<open>\<open>v * c\<close> for a float \<open>c\<close>.\<close>

definition mul_float :: "pyval \<Rightarrow> pyfloat \<Rightarrow> exn + pyfloat" where
  "mul_float v c = (case v of PyFloat x \<Rightarrow> Inr (float_mul x c)
                     | PyInt i \<Rightarrow> bind (float_of_int i) (\<lambda>x. Inr (float_mul x c))
                     | PyStr s \<Rightarrow> Inl TypeError)"

text \<open>\<open>int(v * c)\<close> for a float \<open>c\<close>.\<close>

definition int_times :: "pyval \<Rightarrow> pyfloat \<Rightarrow> exn + int" where
  "int_times v c = bind (mul_float v c) int_of_float"

subsection \<open>Lists and strings\<close>

text \<open>\<open>xs[i]\<close>: a negative index counts from the end, an index out of range raises.\<close>

definition py_index :: "'a list \<Rightarrow> int \<Rightarrow> exn + 'a" where
  "py_index xs i =
     (if 0 \<le> i \<and> i < int (length xs) then Inr (xs ! nat i)
      else if - int (length xs) \<le> i \<and> i < 0 then Inr (xs ! nat (int (length xs) + i))
      else Inl IndexError)"

text \<open>\<open>str(i)\<close> of an \<open>int\<close>, as the f-string of \<open>valuation_id\<close> formats it.\<close>

function str_digits :: "int \<Rightarrow> string" where
  "str_digits n = (if n < 10 then [char_of (48 + n)]
                   else str_digits (n div 10) @ [char_of (48 + n mod 10)])"
  by pat_completeness auto
termination
  by (relation "measure nat") auto

declare str_digits.simps [simp del]

definition str_int :: "int \<Rightarrow> string" where
  "str_int i = (if i < 0 then CHR ''-'' # str_digits (- i) else str_digits i)"

section \<open>The conversation flow\<close>

record validation =
  min_bound :: int
  max_bound :: int

text \<open>One entry of \<open>CONVERSATION_FLOW\<close>; \<open>validation\<close> holds its keys \<open>min\<close> and \<open>max\<close>.\<close>

record flow_step =
  step :: int
  field :: string
  input_type :: string
  help_text :: string
  validation :: validation
  ai_message_template :: string

definition CONVERSATION_FLOW :: "flow_step list" where
  "CONVERSATION_FLOW =
    [ \<lparr> step = 0, field = ''revenue'', input_type = ''number'',
        help_text = ''Enter your annual revenue in euros'',
        validation = \<lparr> min_bound = 10000, max_bound = 1000000000 \<rparr>,
        ai_message_template = ''Hi! I'' @ [CHR 0x27] @ ''ll help you get a quick business valuation. Let'' @ [CHR 0x27] @ ''s start with your annual revenue - what was your total revenue last year?'' \<rparr>,
      \<lparr> step = 1, field = ''ebitda'', input_type = ''number'',
        help_text = ''Enter your EBITDA (earnings before interest, taxes, depreciation, and amortization)'',
        validation = \<lparr> min_bound = 0, max_bound = 500000000 \<rparr>,
        ai_message_template = ''Great! Now, what was your EBITDA (earnings before interest, taxes, depreciation, and amortization) last year?'' \<rparr>,
      \<lparr> step = 2, field = ''employees'', input_type = ''number'',
        help_text = ''How many employees does your company have?'',
        validation = \<lparr> min_bound = 1, max_bound = 10000 \<rparr>,
        ai_message_template = ''Thanks! How many employees does your company have?'' \<rparr>,
      \<lparr> step = 3, field = ''industry'', input_type = ''text'',
        help_text = ''What industry is your company in?'',
        validation = \<lparr> min_bound = 2, max_bound = 100 \<rparr>,
        ai_message_template = ''What industry is your company in? (e.g., Technology, Manufacturing, Services)'' \<rparr>,
      \<lparr> step = 4, field = ''growth_rate'', input_type = ''number'',
        help_text = ''What'' @ [CHR 0x27] @ ''s your expected annual growth rate?'',
        validation = \<lparr> min_bound = - 50, max_bound = 200 \<rparr>,
        ai_message_template = ''What'' @ [CHR 0x27] @ ''s your expected annual growth rate for the next few years? (as a percentage, e.g., 15 for 15%)'' \<rparr>,
      \<lparr> step = 5, field = ''country'', input_type = ''text'',
        help_text = ''What country is your company based in?'',
        validation = \<lparr> min_bound = 2, max_bound = 50 \<rparr>,
        ai_message_template = ''Finally, what country is your company based in?'' \<rparr> ]"

section \<open>Sessions, requests and responses\<close>

text \<open>
  A session is the dictionary stored under its id in the global \<open>sessions\<close>. Each one is
  built by a dictionary display in \<open>start_conversation\<close>, with a new \<open>data\<close> dictionary
  inside, and no other reference to either is kept: two keys of \<open>sessions\<close> never share
  an object, so the store is a map from ids to session values.
\<close>

record session =
  company_id :: string
  step :: int
  data :: "string \<rightharpoonup> pyfloat"
  started_at :: string

type_synonym sessions = "string \<rightharpoonup> session"

record StartConversationRequest =
  company_id :: string

record StartConversationResponse =
  session_id :: string
  company_info :: "(string \<times> string) list"
  ai_message :: string
  step :: int
  next_field :: string
  input_type :: string
  help_text :: string
  validation :: validation

record ConversationStepRequest =
  company_id :: string
  session_id :: string
  step :: int
  field :: string
  "value" :: pyfloat

text \<open>The dictionary \<open>valuation_result\<close>; \<open>valuation_range\<close> is flattened into its two keys.\<close>

record valuation_result =
  valuation_id :: string
  equity_value :: int
  valuation_range_min :: int
  valuation_range_max :: int
  confidence_score :: pyfloat
  methodology :: string
  company_name :: string
  revenue :: pyval
  ebitda :: pyval
  employees :: pyval
  industry :: pyval
  country :: pyval
  growth_rate :: pyval

record ConversationStepResponse =
  complete :: bool
  ai_message :: string
  step :: "int option"
  next_field :: "string option"
  input_type :: "string option"
  help_text :: "string option"
  validation :: "validation option"
  valuation_result :: "valuation_result option"
  error :: "string option"

section \<open>The endpoints\<close>

subsection \<open>start_conversation\<close>

text \<open>
  \<open>new_id\<close> is the string of the \<open>uuid.uuid4()\<close> drawn by the call and \<open>now_iso\<close> the
  \<open>datetime.utcnow().isoformat()\<close> read by it. The new entry replaces whatever the
  store held under \<open>new_id\<close>. \<open>CONVERSATION_FLOW[0]\<close> raises on an empty list.
\<close>

definition start_conversation ::
  "string \<Rightarrow> string \<Rightarrow> StartConversationRequest \<Rightarrow> sessions
     \<Rightarrow> (exn + StartConversationResponse) \<times> sessions" where
  "start_conversation new_id now_iso request sessions =
     (let sessions' = sessions(new_id \<mapsto>
            \<lparr> session.company_id = StartConversationRequest.company_id request,
              session.step = 0,
              session.data = Map.empty,
              session.started_at = now_iso \<rparr>)
      in (bind (py_index CONVERSATION_FLOW 0) (\<lambda>first_step. Inr
            \<lparr> StartConversationResponse.session_id = new_id,
              StartConversationResponse.company_info =
                [(''company_name'', ''Demo Company''),
                 (''industry'', ''Technology''),
                 (''country'', ''Belgium'')],
              StartConversationResponse.ai_message = flow_step.ai_message_template first_step,
              StartConversationResponse.step = 0,
              StartConversationResponse.next_field = flow_step.field first_step,
              StartConversationResponse.input_type = flow_step.input_type first_step,
              StartConversationResponse.help_text = flow_step.help_text first_step,
              StartConversationResponse.validation = flow_step.validation first_step \<rparr>),
          sessions'))"

subsection \<open>conversation_step\<close>

text \<open>\<open>d.get(key, default)\<close> on the answers of a session, whose values are floats.\<close>

definition get_default :: "(string \<rightharpoonup> pyfloat) \<Rightarrow> string \<Rightarrow> pyval \<Rightarrow> pyval" where
  "get_default d key dflt = (case d key of Some v \<Rightarrow> PyFloat v | None \<Rightarrow> dflt)"

text \<open>
  The branch of \<open>conversation_step\<close> that builds \<open>valuation_result\<close>, in the order of
  the source: the default of \<open>ebitda\<close> is computed whether it is used or not, and each
  \<open>int(...)\<close> may raise. \<open>now_ts\<close> is \<open>int(datetime.utcnow().timestamp())\<close>.
\<close>

definition mock_valuation :: "int \<Rightarrow> (string \<rightharpoonup> pyfloat) \<Rightarrow> exn + valuation_result" where
  "mock_valuation now_ts d =
     (let revenue = get_default d ''revenue'' (PyInt 1000000)
      in bind (mul_float revenue (float_lit (2 / 10))) (\<lambda>ebitda_default.
         let ebitda = get_default d ''ebitda'' (PyFloat ebitda_default);
             employees = get_default d ''employees'' (PyInt 10);
             industry = get_default d ''industry'' (PyStr ''Technology'');
             country = get_default d ''country'' (PyStr ''Belgium'');
             growth_rate = get_default d ''growth_rate'' (PyInt 15)
         in bind (int_times revenue (float_lit (25 / 10))) (\<lambda>valuation.
            bind (int_times (PyInt valuation) (float_lit (8 / 10))) (\<lambda>min_valuation.
            bind (int_times (PyInt valuation) (float_lit (12 / 10))) (\<lambda>max_valuation.
            Inr \<lparr> valuation_id = ''val_'' @ str_int now_ts,
                  equity_value = valuation,
                  valuation_range_min = min_valuation,
                  valuation_range_max = max_valuation,
                  confidence_score = float_lit (85 / 100),
                  methodology = ''DCF + Market Multiples'',
                  company_name = ''Demo Company'',
                  revenue = revenue,
                  ebitda = ebitda,
                  employees = employees,
                  industry = industry,
                  country = country,
                  growth_rate = growth_rate \<rparr>)))))"

text \<open>The two responses the handler builds.\<close>

definition complete_response :: "valuation_result \<Rightarrow> ConversationStepResponse" where
  "complete_response result =
     \<lparr> complete = True,
       ai_message = ''Perfect! I have all the information I need. Your business valuation is complete.'',
       step = None, next_field = None, input_type = None, help_text = None,
       validation = None,
       valuation_result = Some result,
       error = None \<rparr>"

definition next_step_response :: "flow_step \<Rightarrow> ConversationStepResponse" where
  "next_step_response next_step =
     \<lparr> complete = False,
       ai_message = flow_step.ai_message_template next_step,
       step = Some (flow_step.step next_step),
       next_field = Some (flow_step.field next_step),
       input_type = Some (flow_step.input_type next_step),
       help_text = Some (flow_step.help_text next_step),
       validation = Some (flow_step.validation next_step),
       valuation_result = None,
       error = None \<rparr>"

text \<open>
  The handler returns its response or the exception it raised, together with the store
  as the call leaves it: the two assignments to the session come before everything
  that can raise except the session check.
\<close>

definition conversation_step ::
  "int \<Rightarrow> ConversationStepRequest \<Rightarrow> sessions
     \<Rightarrow> (exn + ConversationStepResponse) \<times> sessions" where
  "conversation_step now_ts request sessions =
     (case sessions (session_id request) of
        None \<Rightarrow> (Inl (HTTPException 400 ''Invalid session_id''), sessions)
      | Some session \<Rightarrow>
          let session' = session
                \<lparr> session.data := (session.data session)(field request \<mapsto> value request),
                  session.step := ConversationStepRequest.step request + 1 \<rparr>;
              sessions' = sessions(session_id request \<mapsto> session')
          in if ConversationStepRequest.step request \<ge> int (length CONVERSATION_FLOW) - 1
             then (bind (mock_valuation now_ts (session.data session'))
                     (\<lambda>result. Inr (complete_response result)),
                   sessions')
             else (bind (py_index CONVERSATION_FLOW (ConversationStepRequest.step request + 1))
                     (\<lambda>next_step. Inr (next_step_response next_step)),
                   sessions'))"

subsection \<open>Decoding of the step request\<close>

text \<open>
  The route takes its body as a \<open>ConversationStepRequest\<close>, whose \<open>value\<close> is declared
  \<open>float\<close>: the body is validated before the handler runs, and a body that fails is
  answered with a validation error without the handler being called. Only the field
  \<open>value\<close> is kept raw here. A number is taken as it is. A text is converted when it
  spells a float the way \<open>float(s)\<close> reads a text of ASCII characters, and is refused
  otherwise: white space around it is dropped; then comes an optional sign and either
  \<open>inf\<close>, \<open>infinity\<close> or \<open>nan\<close> in any case, or digits with an optional point and an
  optional exponent, where single underscores may stand between digits. The decimal
  value is rounded to the nearest double.
\<close>

datatype raw_value = RawNumber pyfloat | RawText string

definition is_digit :: "char \<Rightarrow> bool" where
  "is_digit c = (48 \<le> (of_char c :: nat) \<and> (of_char c :: nat) \<le> 57)"

definition is_space :: "char \<Rightarrow> bool" where
  "is_space c = ((9 \<le> (of_char c :: nat) \<and> (of_char c :: nat) \<le> 13) \<or> (of_char c :: nat) = 32)"

definition lower :: "char \<Rightarrow> char" where
  "lower c = (if 65 \<le> (of_char c :: nat) \<and> (of_char c :: nat) \<le> 90
              then char_of ((of_char c :: nat) + 32) else c)"

definition strip :: "string \<Rightarrow> string" where
  "strip s = rev (dropWhile is_space (rev (dropWhile is_space s)))"

definition digits_value :: "string \<Rightarrow> int" where
  "digits_value cs = foldl (\<lambda>n c. 10 * n + (of_char c - 48)) 0 cs"

text \<open>
  A digit part is a digit followed by digits, each of which may have one underscore
  before it; \<open>digitpart\<close> returns its digits and the rest of the text, and no digits
  when the text does not start with a digit.
\<close>

fun digit_run :: "string \<Rightarrow> string \<times> string" where
  "digit_run [] = ([], [])"
| "digit_run [c] = (if is_digit c then ([c], []) else ([], [c]))"
| "digit_run (c # d # cs) =
     (if is_digit c then (case digit_run (d # cs) of (ds, r) \<Rightarrow> (c # ds, r))
      else if c = CHR ''_'' \<and> is_digit d then (case digit_run cs of (ds, r) \<Rightarrow> (d # ds, r))
      else ([], c # d # cs))"

definition digitpart :: "string \<Rightarrow> string \<times> string" where
  "digitpart s = (if s \<noteq> [] \<and> is_digit (hd s) then digit_run s else ([], s))"

definition split_sign :: "string \<Rightarrow> bool \<times> string" where
  "split_sign s =
     (if s \<noteq> [] \<and> hd s = CHR ''-'' then (True, tl s)
      else if s \<noteq> [] \<and> hd s = CHR ''+'' then (False, tl s)
      else (False, s))"

definition pow10 :: "int \<Rightarrow> rat" where
  "pow10 k = (if 0 \<le> k then 10 ^ nat k else 1 / 10 ^ nat (- k))"

text \<open>
  After the number comes nothing, or \<open>e\<close> or \<open>E\<close> with an optional sign and a digit
  part that ends the text. The number is a digit part with an optional point, or an
  optional digit part, a point and a digit part.
\<close>

definition exponent_of_str :: "string \<Rightarrow> int option" where
  "exponent_of_str s =
     (if s = [] then Some 0
      else if hd s = CHR ''e'' \<or> hd s = CHR ''E''
      then (case split_sign (tl s) of
              (neg, r) \<Rightarrow>
                (case digitpart r of
                   (ds, rest) \<Rightarrow>
                     if ds \<noteq> [] \<and> rest = []
                     then Some ((if neg then - 1 else 1) * digits_value ds)
                     else None))
      else None)"

definition number_of_str :: "string \<Rightarrow> rat option" where
  "number_of_str s =
     (case digitpart s of
        (ip, r1) \<Rightarrow>
          let dot = (r1 \<noteq> [] \<and> hd r1 = CHR ''.'') in
          (case (if dot then digitpart (tl r1) else ([], r1)) of
             (fp, r2) \<Rightarrow>
               if ip \<noteq> [] \<or> (dot \<and> fp \<noteq> [])
               then (case exponent_of_str r2 of
                       None \<Rightarrow> None
                     | Some e \<Rightarrow>
                         Some ((of_int (digits_value ip)
                                + of_int (digits_value fp) / 10 ^ length fp) * pow10 e))
               else None))"

definition float_of_str :: "string \<Rightarrow> pyfloat option" where
  "float_of_str s =
     (case split_sign (strip s) of
        (neg, body) \<Rightarrow>
          if map lower body = ''inf'' \<or> map lower body = ''infinity''
          then Some (if neg then NegInf else PosInf)
          else if map lower body = ''nan'' then Some NaN
          else (case number_of_str body of
                  None \<Rightarrow> None
                | Some q \<Rightarrow> Some (round_double (if neg then - q else q))))"

definition validate_value :: "raw_value \<Rightarrow> exn + pyfloat" where
  "validate_value raw =
     (case raw of
        RawNumber x \<Rightarrow> Inr x
      | RawText s \<Rightarrow> (case float_of_str s of
                       Some x \<Rightarrow> Inr x
                     | None \<Rightarrow> Inl RequestValidationError))"

definition post_conversation_step ::
  "int \<Rightarrow> string \<Rightarrow> string \<Rightarrow> int \<Rightarrow> string \<Rightarrow> raw_value \<Rightarrow> sessions
     \<Rightarrow> (exn + ConversationStepResponse) \<times> sessions" where
  "post_conversation_step now_ts cid sid st fld raw sessions =
     (case validate_value raw of
        Inl e \<Rightarrow> (Inl e, sessions)
      | Inr v \<Rightarrow> conversation_step now_ts
                 \<lparr> company_id = cid, session_id = sid, step = st, field = fld, value = v \<rparr>
                 sessions)"

section \<open>Reachable stores\<close>

text \<open>The stores that calls of the two endpoints produce from the empty one.\<close>

inductive reachable :: "sessions \<Rightarrow> bool" where
  initial: "reachable Map.empty"
| started: "reachable sessions \<Longrightarrow>
            reachable (snd (start_conversation new_id now_iso request sessions))"
| stepped: "reachable sessions \<Longrightarrow>
            reachable (snd (conversation_step now_ts request sessions))"

section \<open>Vocabulary of the specification\<close>

text \<open>A call signals completion when it returns a response with \<open>complete\<close> set that
  carries a valuation result.\<close>

definition signals_completion :: "exn + ConversationStepResponse \<Rightarrow> bool" where
  "signals_completion r =
     (case r of Inl e \<Rightarrow> False
      | Inr response \<Rightarrow> complete response \<and> valuation_result response \<noteq> None)"

definition returns_in_progress :: "exn + ConversationStepResponse \<Rightarrow> bool" where
  "returns_in_progress r =
     (case r of Inl e \<Rightarrow> False
      | Inr response \<Rightarrow> \<not> complete response \<and> valuation_result response = None)"

text \<open>
  The specification's validation rule for a numeric step, in its words: the value must
  lie within \<open>[min, max]\<close> inclusive. The handler has no counterpart of it.
\<close>

definition spec_violates_rule :: "flow_step \<Rightarrow> pyfloat \<Rightarrow> bool" where
  "spec_violates_rule fs v =
     (case v of
        Finite q \<Rightarrow> q < of_int (min_bound (flow_step.validation fs))
                    \<or> of_int (max_bound (flow_step.validation fs)) < q
      | _ \<Rightarrow> True)"

text \<open>The specification's estimate, in its words: \<open>round(revenue \<times> 2.5)\<close>.\<close>

definition spec_estimate :: "rat \<Rightarrow> int" where
  "spec_estimate r = round (r * (25 / 10))"

section \<open>Example sessions\<close>

text \<open>A store with one session just started, and requests for that session.\<close>

definition fresh_sessions :: sessions where
  "fresh_sessions =
     snd (start_conversation ''sess-1'' ''2024-01-01T00:00:00''
            \<lparr> StartConversationRequest.company_id = ''co-1'' \<rparr> Map.empty)"

definition step_request :: "int \<Rightarrow> string \<Rightarrow> pyfloat \<Rightarrow> ConversationStepRequest" where
  "step_request st fld v =
     \<lparr> company_id = ''co-1'', session_id = ''sess-1'', step = st, field = fld, value = v \<rparr>"

definition answer :: "int \<Rightarrow> string \<Rightarrow> pyfloat \<Rightarrow> sessions \<Rightarrow> sessions" where
  "answer st fld v sessions = snd (conversation_step 0 (step_request st fld v) sessions)"

text \<open>The same session after steps 0 to 4 were answered in order, with numbers.\<close>

definition answered_with :: "pyfloat \<Rightarrow> sessions" where
  "answered_with r =
     answer 4 ''growth_rate'' (Finite 15)
       (answer 3 ''industry'' (Finite 7)
         (answer 2 ''employees'' (Finite 25)
           (answer 1 ''ebitda'' (Finite 400000)
             (answer 0 ''revenue'' r fresh_sessions))))"

definition answered_sessions :: sessions where
  "answered_sessions = answered_with (Finite 2000000)"

text \<open>The result for that session once the country is answered with the number 1.\<close>

definition answered_result :: "pyfloat \<Rightarrow> int \<Rightarrow> int \<Rightarrow> int \<Rightarrow> valuation_result" where
  "answered_result r v lo hi =
     \<lparr> valuation_id = ''val_0'', equity_value = v,
       valuation_range_min = lo, valuation_range_max = hi,
       confidence_score = Finite (7656119366529843 / 9007199254740992),
       methodology = ''DCF + Market Multiples'', company_name = ''Demo Company'',
       revenue = PyFloat r, ebitda = PyFloat (Finite 400000),
       employees = PyFloat (Finite 25), industry = PyFloat (Finite 7),
       country = PyFloat (Finite 1), growth_rate = PyFloat (Finite 15) \<rparr>"

text \<open>A store with two sessions, the second one a step further.\<close>

definition two_sessions :: sessions where
  "two_sessions =
     snd (start_conversation ''sess-2'' ''2024-01-01T00:05:00''
            \<lparr> StartConversationRequest.company_id = ''co-2'' \<rparr>
            (answer 0 ''revenue'' (Finite 2000000) fresh_sessions))"

section \<open>The handler, case by case\<close>

lemma length_flow [simp]: "length CONVERSATION_FLOW = 6"
  by (simp add: CONVERSATION_FLOW_def)

lemma conversation_step_unknown:
  "sessions (session_id request) = None \<Longrightarrow>
   conversation_step now_ts request sessions =
     (Inl (HTTPException 400 ''Invalid session_id''), sessions)"
  by (simp add: conversation_step_def)

lemma snd_conversation_step:
  "sessions (session_id request) = Some s \<Longrightarrow>
   snd (conversation_step now_ts request sessions) =
     sessions(session_id request \<mapsto>
       s\<lparr> session.data := (session.data s)(field request \<mapsto> value request),
          session.step := ConversationStepRequest.step request + 1 \<rparr>)"
  by (simp add: conversation_step_def Let_def)

lemma fst_conversation_step_last:
  "sessions (session_id request) = Some s \<Longrightarrow> 5 \<le> ConversationStepRequest.step request \<Longrightarrow>
   fst (conversation_step now_ts request sessions) =
     bind (mock_valuation now_ts ((session.data s)(field request \<mapsto> value request)))
       (\<lambda>result. Inr (complete_response result))"
  by (simp add: conversation_step_def Let_def)

lemma fst_conversation_step_next:
  "sessions (session_id request) = Some s \<Longrightarrow> ConversationStepRequest.step request < 5 \<Longrightarrow>
   fst (conversation_step now_ts request sessions) =
     bind (py_index CONVERSATION_FLOW (ConversationStepRequest.step request + 1))
       (\<lambda>next_step. Inr (next_step_response next_step))"
  by (simp add: conversation_step_def Let_def)

lemma py_index_flow_in_range:
  "- 7 \<le> i \<Longrightarrow> i < 5 \<Longrightarrow>
   py_index CONVERSATION_FLOW (i + 1) =
     Inr (CONVERSATION_FLOW ! nat (if i + 1 < 0 then 6 + (i + 1) else i + 1))"
  by (simp add: py_index_def)

lemma py_index_flow_below:
  "i \<le> - 8 \<Longrightarrow> py_index CONVERSATION_FLOW (i + 1) = Inl IndexError"
  by (simp add: py_index_def)

lemma fresh_sessions_eq:
  "fresh_sessions = [''sess-1'' \<mapsto>
     \<lparr> session.company_id = ''co-1'', session.step = 0, session.data = Map.empty,
       session.started_at = ''2024-01-01T00:00:00'' \<rparr>]"
  by (simp add: fresh_sessions_def start_conversation_def)

lemma answer_existing:
  "sessions ''sess-1'' = Some s \<Longrightarrow>
   answer st fld v sessions =
     sessions(''sess-1'' \<mapsto> s\<lparr> session.data := (session.data s)(fld \<mapsto> v), session.step := st + 1 \<rparr>)"
  by (simp add: answer_def snd_conversation_step step_request_def)

lemma answered_with_eq:
  "answered_with r = [''sess-1'' \<mapsto>
     \<lparr> session.company_id = ''co-1'', session.step = 5,
       session.data = [''revenue'' \<mapsto> r, ''ebitda'' \<mapsto> Finite 400000,
                       ''employees'' \<mapsto> Finite 25, ''industry'' \<mapsto> Finite 7,
                       ''growth_rate'' \<mapsto> Finite 15],
       session.started_at = ''2024-01-01T00:00:00'' \<rparr>]"
  by (simp add: answered_with_def fresh_sessions_eq answer_existing)

lemmas answered_sessions_eq = answered_with_eq [of "Finite 2000000", folded answered_sessions_def]

lemma float_of_int_million: "float_of_int 1000000 = Inr (Finite 1000000)"
  by code_simp

lemma mul_float_PyFloat: "mul_float (PyFloat x) c = Inr (float_mul x c)"
  by (simp add: mul_float_def)

lemma mul_float_million: "mul_float (PyInt 1000000) c = Inr (float_mul (Finite 1000000) c)"
  by (simp add: mul_float_def float_of_int_million bind_def)

lemma mul_float_PyInt_error: "mul_float (PyInt i) c = Inl e \<Longrightarrow> e = OverflowError"
  by (auto simp: mul_float_def float_of_int_def bind_def split: pyfloat.splits)

lemma int_of_float_error: "int_of_float x = Inl e \<Longrightarrow> e = OverflowError \<or> e = ValueError"
  by (auto simp: int_of_float_def split: pyfloat.splits)

lemma mul_float_revenue: "mul_float (get_default d ''revenue'' (PyInt 1000000)) c \<noteq> Inl e"
  by (simp add: get_default_def mul_float_PyFloat mul_float_million split: option.splits)

lemma mock_valuation_error:
  assumes "mock_valuation now_ts d = Inl e"
  shows "e = OverflowError \<or> e = ValueError"
  using assms unfolding mock_valuation_def Let_def
  by (auto simp: mul_float_revenue bind_def int_times_def split: sum.splits
           dest: mul_float_PyInt_error int_of_float_error)


lemma conversation_step_error:
  assumes "sessions (session_id request) = Some s"
    and "fst (conversation_step now_ts request sessions) = Inl e"
  shows "e = IndexError \<and> ConversationStepRequest.step request \<le> - 8
         \<or> (e = OverflowError \<or> e = ValueError) \<and> 5 \<le> ConversationStepRequest.step request"
proof (cases "5 \<le> ConversationStepRequest.step request")
  case True
  with assms show ?thesis
    by (auto simp: fst_conversation_step_last bind_def split: sum.splits
             dest: mock_valuation_error)
next
  case False
  show ?thesis
  proof (cases "- 7 \<le> ConversationStepRequest.step request")
    case True
    with False assms show ?thesis
      by (simp add: fst_conversation_step_next py_index_flow_in_range bind_def)
  next
    case False
    with assms show ?thesis
      by (simp add: fst_conversation_step_next py_index_flow_below bind_def)
  qed
qed

section \<open>Unknown sessions\<close>

text \<open>
  Claim C8. A step call whose session id is not a key of the store fails with the
  client error of the handler (status 400, "Invalid session_id"), and the store after
  the call is the store before it: no session is created, changed or removed.
\<close>

theorem unknown_session_rejected:
  assumes "sessions (session_id request) = None"
  shows "conversation_step now_ts request sessions =
           (Inl (HTTPException 400 ''Invalid session_id''), sessions)"
  using assms by (rule conversation_step_unknown)

theorem unknown_session_rejected_witness:
  "fresh_sessions ''does-not-exist'' = None \<and>
   conversation_step 0
     \<lparr> company_id = ''co-1'', session_id = ''does-not-exist'', step = 0,
       field = ''revenue'', value = Finite 2000000 \<rparr> fresh_sessions =
     (Inl (HTTPException 400 ''Invalid session_id''), fresh_sessions)"
proof -
  have absent: "fresh_sessions ''does-not-exist'' = None"
    by (simp add: fresh_sessions_eq)
  show ?thesis
    using absent
      unknown_session_rejected [of fresh_sessions
        "\<lparr> company_id = ''co-1'', session_id = ''does-not-exist'', step = 0,
           field = ''revenue'', value = Finite 2000000 \<rparr>" 0]
    by simp
qed

section \<open>Isolation of sessions\<close>

text \<open>
  Claim C9. A step call for one session leaves every other session of the store as it
  was (the whole entry: step ordinal, answers, company id and start time), and what the
  call returns or raises is the same in any store that holds the same entry for the
  session it names.
\<close>

theorem step_isolation:
  assumes "B \<noteq> session_id request"
  shows "snd (conversation_step now_ts request sessions) B = sessions B \<and>
         (others (session_id request) = sessions (session_id request) \<longrightarrow>
            fst (conversation_step now_ts request others) =
            fst (conversation_step now_ts request sessions))"
proof
  show "snd (conversation_step now_ts request sessions) B = sessions B"
  proof (cases "sessions (session_id request)")
    case None
    then show ?thesis by (simp add: conversation_step_unknown)
  next
    case (Some s)
    with assms show ?thesis by (simp add: snd_conversation_step)
  qed
next
  show "others (session_id request) = sessions (session_id request) \<longrightarrow>
        fst (conversation_step now_ts request others) =
        fst (conversation_step now_ts request sessions)"
    by (simp add: conversation_step_def Let_def split: option.splits)
qed

theorem step_isolation_witness:
  "''sess-2'' \<noteq> session_id (step_request 1 ''ebitda'' (Finite 400000)) \<and>
   two_sessions ''sess-2'' =
     Some \<lparr> session.company_id = ''co-2'', session.step = 0, session.data = Map.empty,
            session.started_at = ''2024-01-01T00:05:00'' \<rparr> \<and>
   snd (conversation_step 0 (step_request 1 ''ebitda'' (Finite 400000)) two_sessions) ''sess-2'' =
     two_sessions ''sess-2'' \<and>
   answer 0 ''revenue'' (Finite 2000000) fresh_sessions ''sess-1'' = two_sessions ''sess-1'' \<and>
   fst (conversation_step 0 (step_request 1 ''ebitda'' (Finite 400000))
          (answer 0 ''revenue'' (Finite 2000000) fresh_sessions)) =
   fst (conversation_step 0 (step_request 1 ''ebitda'' (Finite 400000)) two_sessions)"
proof -
  have other: "''sess-2'' \<noteq> session_id (step_request 1 ''ebitda'' (Finite 400000))"
    by (simp add: step_request_def)
  have entry: "two_sessions ''sess-2'' =
     Some \<lparr> session.company_id = ''co-2'', session.step = 0, session.data = Map.empty,
            session.started_at = ''2024-01-01T00:05:00'' \<rparr>"
    by (simp add: two_sessions_def start_conversation_def)
  have same: "answer 0 ''revenue'' (Finite 2000000) fresh_sessions ''sess-1'' =
              two_sessions ''sess-1''"
    by (simp add: two_sessions_def start_conversation_def)
  from step_isolation [OF other, of 0 two_sessions
         "answer 0 ''revenue'' (Finite 2000000) fresh_sessions"] same
  have "snd (conversation_step 0 (step_request 1 ''ebitda'' (Finite 400000)) two_sessions)
          ''sess-2'' = two_sessions ''sess-2'' \<and>
        fst (conversation_step 0 (step_request 1 ''ebitda'' (Finite 400000))
               (answer 0 ''revenue'' (Finite 2000000) fresh_sessions)) =
        fst (conversation_step 0 (step_request 1 ''ebitda'' (Finite 400000)) two_sessions)"
    by (simp add: step_request_def)
  with other entry same show ?thesis by simp
qed

lemma flow_fields_steps:
  "map flow_step.field CONVERSATION_FLOW =
     [''revenue'', ''ebitda'', ''employees'', ''industry'', ''growth_rate'', ''country'']"
  "map flow_step.step CONVERSATION_FLOW = [0, 1, 2, 3, 4, 5]"
  by (simp_all add: CONVERSATION_FLOW_def)

lemma flow_entry_field_step:
  assumes "i < 6"
  shows "flow_step.field (CONVERSATION_FLOW ! i) =
           [''revenue'', ''ebitda'', ''employees'', ''industry'', ''growth_rate'', ''country''] ! i"
    and "flow_step.step (CONVERSATION_FLOW ! i) = int i"
proof -
  have "flow_step.field (CONVERSATION_FLOW ! i) = map flow_step.field CONVERSATION_FLOW ! i"
    using assms by simp
  then show "flow_step.field (CONVERSATION_FLOW ! i) =
           [''revenue'', ''ebitda'', ''employees'', ''industry'', ''growth_rate'', ''country''] ! i"
    by (simp only: flow_fields_steps)
  have "flow_step.step (CONVERSATION_FLOW ! i) = map flow_step.step CONVERSATION_FLOW ! i"
    using assms by simp
  also have "\<dots> = [0, 1, 2, 3, 4, 5] ! i"
    by (simp only: flow_fields_steps)
  also have "\<dots> = int i"
  proof -
    from assms consider "i = 0" | "i = 1" | "i = 2" | "i = 3" | "i = 4" | "i = 5"
      by linarith
    then show ?thesis by cases simp_all
  qed
  finally show "flow_step.step (CONVERSATION_FLOW ! i) = int i" .
qed

section \<open>Negative step ordinals\<close>

text \<open>
  Claim C10. On an existing session a declared step from \<open>-6\<close> to \<open>-2\<close> does not fail:
  the call returns an in-progress response whose message, step, field, input type,
  help text and bounds are those of the catalog entry at index \<open>step + 1\<close> counted from
  the end (\<open>-6\<close> gives the ebitda step, \<open>-5\<close> employees, \<open>-4\<close> industry, \<open>-3\<close> the growth
  rate and \<open>-2\<close> the country step), and it stores the negative ordinal \<open>step + 1\<close> in
  the session. The lookup of the next step raises \<open>IndexError\<close> exactly for declared
  steps of \<open>-8\<close> and below.
\<close>

theorem negative_step_wraps:
  assumes "sessions (session_id request) = Some s"
  shows "(- 6 \<le> ConversationStepRequest.step request \<and> ConversationStepRequest.step request \<le> - 2 \<longrightarrow>
            conversation_step now_ts request sessions =
              (Inr \<lparr> complete = False,
                     ai_message = flow_step.ai_message_template
                       (CONVERSATION_FLOW ! nat (6 + (ConversationStepRequest.step request + 1))),
                     step = Some (flow_step.step
                       (CONVERSATION_FLOW ! nat (6 + (ConversationStepRequest.step request + 1)))),
                     next_field = Some (flow_step.field
                       (CONVERSATION_FLOW ! nat (6 + (ConversationStepRequest.step request + 1)))),
                     input_type = Some (flow_step.input_type
                       (CONVERSATION_FLOW ! nat (6 + (ConversationStepRequest.step request + 1)))),
                     help_text = Some (flow_step.help_text
                       (CONVERSATION_FLOW ! nat (6 + (ConversationStepRequest.step request + 1)))),
                     validation = Some (flow_step.validation
                       (CONVERSATION_FLOW ! nat (6 + (ConversationStepRequest.step request + 1)))),
                     valuation_result = None,
                     error = None \<rparr>,
               sessions(session_id request \<mapsto>
                 s\<lparr> session.data := (session.data s)(field request \<mapsto> value request),
                    session.step := ConversationStepRequest.step request + 1 \<rparr>)) \<and>
            flow_step.field
              (CONVERSATION_FLOW ! nat (6 + (ConversationStepRequest.step request + 1))) =
              [''ebitda'', ''employees'', ''industry'', ''growth_rate'', ''country'']
                ! nat (ConversationStepRequest.step request + 6) \<and>
            flow_step.step
              (CONVERSATION_FLOW ! nat (6 + (ConversationStepRequest.step request + 1))) =
              ConversationStepRequest.step request + 7 \<and>
            ConversationStepRequest.step request + 1 < 0) \<and>
         (fst (conversation_step now_ts request sessions) = Inl IndexError
            \<longleftrightarrow> ConversationStepRequest.step request \<le> - 8)"
proof (intro conjI impI)
  assume range: "- 6 \<le> ConversationStepRequest.step request \<and> ConversationStepRequest.step request \<le> - 2"
  define i where "i = nat (6 + (ConversationStepRequest.step request + 1))"
  have i: "1 \<le> i" "i < 6" "int i = ConversationStepRequest.step request + 7"
    using range unfolding i_def by linarith+
  have "fst (conversation_step now_ts request sessions) =
      Inr (next_step_response (CONVERSATION_FLOW ! i))"
    using assms range
    by (simp add: fst_conversation_step_next py_index_flow_in_range bind_def i_def)
  with assms show "conversation_step now_ts request sessions =
              (Inr \<lparr> complete = False,
                     ai_message = flow_step.ai_message_template (CONVERSATION_FLOW ! i),
                     step = Some (flow_step.step (CONVERSATION_FLOW ! i)),
                     next_field = Some (flow_step.field (CONVERSATION_FLOW ! i)),
                     input_type = Some (flow_step.input_type (CONVERSATION_FLOW ! i)),
                     help_text = Some (flow_step.help_text (CONVERSATION_FLOW ! i)),
                     validation = Some (flow_step.validation (CONVERSATION_FLOW ! i)),
                     valuation_result = None,
                     error = None \<rparr>,
               sessions(session_id request \<mapsto>
                 s\<lparr> session.data := (session.data s)(field request \<mapsto> value request),
                    session.step := ConversationStepRequest.step request + 1 \<rparr>))"
    by (simp add: prod_eq_iff snd_conversation_step next_step_response_def)
  have "flow_step.field (CONVERSATION_FLOW ! i) =
      [''revenue'', ''ebitda'', ''employees'', ''industry'', ''growth_rate'', ''country''] ! i"
    using i(2) by (rule flow_entry_field_step)
  also have "\<dots> = [''ebitda'', ''employees'', ''industry'', ''growth_rate'', ''country'']
                ! (i - 1)"
    using i(1) by (cases i) simp_all
  also have "i - 1 = nat (ConversationStepRequest.step request + 6)"
    using range unfolding i_def by linarith
  finally show "flow_step.field (CONVERSATION_FLOW ! i) =
              [''ebitda'', ''employees'', ''industry'', ''growth_rate'', ''country'']
                ! nat (ConversationStepRequest.step request + 6)" .
  show "flow_step.step (CONVERSATION_FLOW ! i) = ConversationStepRequest.step request + 7"
    using flow_entry_field_step(2) [OF i(2)] i(3) by simp
  from range show "ConversationStepRequest.step request + 1 < 0" by simp
next
  show "fst (conversation_step now_ts request sessions) = Inl IndexError
            \<longleftrightarrow> ConversationStepRequest.step request \<le> - 8"
  proof
    assume "fst (conversation_step now_ts request sessions) = Inl IndexError"
    from conversation_step_error [of sessions request s now_ts, OF assms this]
    show "ConversationStepRequest.step request \<le> - 8" by simp
  next
    assume "ConversationStepRequest.step request \<le> - 8"
    with assms show "fst (conversation_step now_ts request sessions) = Inl IndexError"
      by (simp add: fst_conversation_step_next py_index_flow_below bind_def)
  qed
qed

theorem negative_step_wraps_witness:
  "fresh_sessions (session_id (step_request (- 2) ''revenue'' (Finite 2000000))) =
     Some \<lparr> session.company_id = ''co-1'', session.step = 0, session.data = Map.empty,
            session.started_at = ''2024-01-01T00:00:00'' \<rparr> \<and>
   conversation_step 0 (step_request (- 2) ''revenue'' (Finite 2000000)) fresh_sessions =
     (Inr \<lparr> complete = False,
             ai_message = ''Finally, what country is your company based in?'',
             step = Some 5, next_field = Some ''country'', input_type = Some ''text'',
             help_text = Some (''What country is your company based in?''),
             validation = Some \<lparr> min_bound = 2, max_bound = 50 \<rparr>,
             valuation_result = None, error = None \<rparr>,
      [''sess-1'' \<mapsto>
         \<lparr> session.company_id = ''co-1'', session.step = - 1,
           session.data = [''revenue'' \<mapsto> Finite 2000000],
           session.started_at = ''2024-01-01T00:00:00'' \<rparr>]) \<and>
   conversation_step 0 (step_request (- 3) ''revenue'' (Finite 2000000)) fresh_sessions =
     (Inr \<lparr> complete = False,
             ai_message = ''What'' @ [CHR 0x27] @ ''s your expected annual growth rate for the next few years? (as a percentage, e.g., 15 for 15%)'',
             step = Some 4, next_field = Some ''growth_rate'', input_type = Some ''number'',
             help_text = Some (''What'' @ [CHR 0x27] @ ''s your expected annual growth rate?''),
             validation = Some \<lparr> min_bound = - 50, max_bound = 200 \<rparr>,
             valuation_result = None, error = None \<rparr>,
      [''sess-1'' \<mapsto>
         \<lparr> session.company_id = ''co-1'', session.step = - 2,
           session.data = [''revenue'' \<mapsto> Finite 2000000],
           session.started_at = ''2024-01-01T00:00:00'' \<rparr>]) \<and>
   conversation_step 0 (step_request (- 4) ''revenue'' (Finite 2000000)) fresh_sessions =
     (Inr \<lparr> complete = False,
             ai_message = ''What industry is your company in? (e.g., Technology, Manufacturing, Services)'',
             step = Some 3, next_field = Some ''industry'', input_type = Some ''text'',
             help_text = Some (''What industry is your company in?''),
             validation = Some \<lparr> min_bound = 2, max_bound = 100 \<rparr>,
             valuation_result = None, error = None \<rparr>,
      [''sess-1'' \<mapsto>
         \<lparr> session.company_id = ''co-1'', session.step = - 3,
           session.data = [''revenue'' \<mapsto> Finite 2000000],
           session.started_at = ''2024-01-01T00:00:00'' \<rparr>]) \<and>
   conversation_step 0 (step_request (- 5) ''revenue'' (Finite 2000000)) fresh_sessions =
     (Inr \<lparr> complete = False,
             ai_message = ''Thanks! How many employees does your company have?'',
             step = Some 2, next_field = Some ''employees'', input_type = Some ''number'',
             help_text = Some (''How many employees does your company have?''),
             validation = Some \<lparr> min_bound = 1, max_bound = 10000 \<rparr>,
             valuation_result = None, error = None \<rparr>,
      [''sess-1'' \<mapsto>
         \<lparr> session.company_id = ''co-1'', session.step = - 4,
           session.data = [''revenue'' \<mapsto> Finite 2000000],
           session.started_at = ''2024-01-01T00:00:00'' \<rparr>]) \<and>
   conversation_step 0 (step_request (- 6) ''revenue'' (Finite 2000000)) fresh_sessions =
     (Inr \<lparr> complete = False,
             ai_message = ''Great! Now, what was your EBITDA (earnings before interest, taxes, depreciation, and amortization) last year?'',
             step = Some 1, next_field = Some ''ebitda'', input_type = Some ''number'',
             help_text = Some (''Enter your EBITDA (earnings before interest, taxes, depreciation, and amortization)''),
             validation = Some \<lparr> min_bound = 0, max_bound = 500000000 \<rparr>,
             valuation_result = None, error = None \<rparr>,
      [''sess-1'' \<mapsto>
         \<lparr> session.company_id = ''co-1'', session.step = - 5,
           session.data = [''revenue'' \<mapsto> Finite 2000000],
           session.started_at = ''2024-01-01T00:00:00'' \<rparr>]) \<and>
   fst (conversation_step 0 (step_request (- 7) ''revenue'' (Finite 2000000)) fresh_sessions)
     \<noteq> Inl IndexError \<and>
   fst (conversation_step 0 (step_request (- 8) ''revenue'' (Finite 2000000)) fresh_sessions)
     = Inl IndexError"
proof -
  have entry: "fresh_sessions (session_id (step_request st fld v)) =
     Some \<lparr> session.company_id = ''co-1'', session.step = 0, session.data = Map.empty,
            session.started_at = ''2024-01-01T00:00:00'' \<rparr>" for st fld v
    by (simp add: fresh_sessions_eq step_request_def)
  from negative_step_wraps [where sessions = fresh_sessions and now_ts = 0
      and request = "step_request (- 2) ''revenue'' (Finite 2000000)", OF entry]
  have c2: "conversation_step 0 (step_request (- 2) ''revenue'' (Finite 2000000)) fresh_sessions =
     (Inr \<lparr> complete = False,
             ai_message = ''Finally, what country is your company based in?'',
             step = Some 5, next_field = Some ''country'', input_type = Some ''text'',
             help_text = Some (''What country is your company based in?''),
             validation = Some \<lparr> min_bound = 2, max_bound = 50 \<rparr>,
             valuation_result = None, error = None \<rparr>,
      [''sess-1'' \<mapsto>
         \<lparr> session.company_id = ''co-1'', session.step = - 1,
           session.data = [''revenue'' \<mapsto> Finite 2000000],
           session.started_at = ''2024-01-01T00:00:00'' \<rparr>])"
    by (simp add: step_request_def CONVERSATION_FLOW_def fresh_sessions_eq)
  from negative_step_wraps [where sessions = fresh_sessions and now_ts = 0
      and request = "step_request (- 3) ''revenue'' (Finite 2000000)", OF entry]
  have c3: "conversation_step 0 (step_request (- 3) ''revenue'' (Finite 2000000)) fresh_sessions =
     (Inr \<lparr> complete = False,
             ai_message = ''What'' @ [CHR 0x27] @ ''s your expected annual growth rate for the next few years? (as a percentage, e.g., 15 for 15%)'',
             step = Some 4, next_field = Some ''growth_rate'', input_type = Some ''number'',
             help_text = Some (''What'' @ [CHR 0x27] @ ''s your expected annual growth rate?''),
             validation = Some \<lparr> min_bound = - 50, max_bound = 200 \<rparr>,
             valuation_result = None, error = None \<rparr>,
      [''sess-1'' \<mapsto>
         \<lparr> session.company_id = ''co-1'', session.step = - 2,
           session.data = [''revenue'' \<mapsto> Finite 2000000],
           session.started_at = ''2024-01-01T00:00:00'' \<rparr>])"
    by (simp add: step_request_def CONVERSATION_FLOW_def fresh_sessions_eq)
  from negative_step_wraps [where sessions = fresh_sessions and now_ts = 0
      and request = "step_request (- 4) ''revenue'' (Finite 2000000)", OF entry]
  have c4: "conversation_step 0 (step_request (- 4) ''revenue'' (Finite 2000000)) fresh_sessions =
     (Inr \<lparr> complete = False,
             ai_message = ''What industry is your company in? (e.g., Technology, Manufacturing, Services)'',
             step = Some 3, next_field = Some ''industry'', input_type = Some ''text'',
             help_text = Some (''What industry is your company in?''),
             validation = Some \<lparr> min_bound = 2, max_bound = 100 \<rparr>,
             valuation_result = None, error = None \<rparr>,
      [''sess-1'' \<mapsto>
         \<lparr> session.company_id = ''co-1'', session.step = - 3,
           session.data = [''revenue'' \<mapsto> Finite 2000000],
           session.started_at = ''2024-01-01T00:00:00'' \<rparr>])"
    by (simp add: step_request_def CONVERSATION_FLOW_def fresh_sessions_eq)
  from negative_step_wraps [where sessions = fresh_sessions and now_ts = 0
      and request = "step_request (- 5) ''revenue'' (Finite 2000000)", OF entry]
  have c5: "conversation_step 0 (step_request (- 5) ''revenue'' (Finite 2000000)) fresh_sessions =
     (Inr \<lparr> complete = False,
             ai_message = ''Thanks! How many employees does your company have?'',
             step = Some 2, next_field = Some ''employees'', input_type = Some ''number'',
             help_text = Some (''How many employees does your company have?''),
             validation = Some \<lparr> min_bound = 1, max_bound = 10000 \<rparr>,
             valuation_result = None, error = None \<rparr>,
      [''sess-1'' \<mapsto>
         \<lparr> session.company_id = ''co-1'', session.step = - 4,
           session.data = [''revenue'' \<mapsto> Finite 2000000],
           session.started_at = ''2024-01-01T00:00:00'' \<rparr>])"
    by (simp add: step_request_def CONVERSATION_FLOW_def fresh_sessions_eq)
  from negative_step_wraps [where sessions = fresh_sessions and now_ts = 0
      and request = "step_request (- 6) ''revenue'' (Finite 2000000)", OF entry]
  have c6: "conversation_step 0 (step_request (- 6) ''revenue'' (Finite 2000000)) fresh_sessions =
     (Inr \<lparr> complete = False,
             ai_message = ''Great! Now, what was your EBITDA (earnings before interest, taxes, depreciation, and amortization) last year?'',
             step = Some 1, next_field = Some ''ebitda'', input_type = Some ''number'',
             help_text = Some (''Enter your EBITDA (earnings before interest, taxes, depreciation, and amortization)''),
             validation = Some \<lparr> min_bound = 0, max_bound = 500000000 \<rparr>,
             valuation_result = None, error = None \<rparr>,
      [''sess-1'' \<mapsto>
         \<lparr> session.company_id = ''co-1'', session.step = - 5,
           session.data = [''revenue'' \<mapsto> Finite 2000000],
           session.started_at = ''2024-01-01T00:00:00'' \<rparr>])"
    by (simp add: step_request_def CONVERSATION_FLOW_def fresh_sessions_eq)
  from negative_step_wraps [where sessions = fresh_sessions and now_ts = 0
      and request = "step_request (- 7) ''revenue'' (Finite 2000000)", OF entry]
  have c7: "fst (conversation_step 0 (step_request (- 7) ''revenue'' (Finite 2000000)) fresh_sessions)
     \<noteq> Inl IndexError"
    by (simp add: step_request_def)
  from negative_step_wraps [where sessions = fresh_sessions and now_ts = 0
      and request = "step_request (- 8) ''revenue'' (Finite 2000000)", OF entry]
  have c8: "fst (conversation_step 0 (step_request (- 8) ''revenue'' (Finite 2000000)) fresh_sessions)
     = Inl IndexError"
    by (simp add: step_request_def)
  from entry [of "- 2" "''revenue''" "Finite 2000000"] c2 c3 c4 c5 c6 c7 c8 show ?thesis
    by (intro conjI)
qed

section \<open>No validation of submitted values\<close>

text \<open>
  Claim C1 says that a value outside the bounds of the current step is rejected with a
  validation error and leaves the session unchanged. The handler never reads the
  bounds: the revenue 500, below the minimum 10000 of step 0, is accepted, recorded,
  and the session moves to step 1.
\<close>

theorem validation_counterexample:
  "spec_violates_rule (CONVERSATION_FLOW ! 0) (Finite 500) \<and>
   fresh_sessions = [''sess-1'' \<mapsto>
     \<lparr> session.company_id = ''co-1'', session.step = 0, session.data = Map.empty,
       session.started_at = ''2024-01-01T00:00:00'' \<rparr>] \<and>
   conversation_step 0 (step_request 0 ''revenue'' (Finite 500)) fresh_sessions =
     (Inr \<lparr> complete = False,
             ai_message = ''Great! Now, what was your EBITDA (earnings before interest, taxes, depreciation, and amortization) last year?'',
             step = Some 1, next_field = Some ''ebitda'', input_type = Some ''number'',
             help_text = Some (''Enter your EBITDA (earnings before interest, taxes, depreciation, and amortization)''),
             validation = Some \<lparr> min_bound = 0, max_bound = 500000000 \<rparr>,
             valuation_result = None, error = None \<rparr>,
      [''sess-1'' \<mapsto>
         \<lparr> session.company_id = ''co-1'', session.step = 1,
           session.data = [''revenue'' \<mapsto> Finite 500],
           session.started_at = ''2024-01-01T00:00:00'' \<rparr>])"
proof -
  have "spec_violates_rule (CONVERSATION_FLOW ! 0) (Finite 500)"
    by (simp add: spec_violates_rule_def CONVERSATION_FLOW_def)
  moreover have "conversation_step 0 (step_request 0 ''revenue'' (Finite 500)) fresh_sessions =
     (Inr \<lparr> complete = False,
             ai_message = ''Great! Now, what was your EBITDA (earnings before interest, taxes, depreciation, and amortization) last year?'',
             step = Some 1, next_field = Some ''ebitda'', input_type = Some ''number'',
             help_text = Some (''Enter your EBITDA (earnings before interest, taxes, depreciation, and amortization)''),
             validation = Some \<lparr> min_bound = 0, max_bound = 500000000 \<rparr>,
             valuation_result = None, error = None \<rparr>,
      [''sess-1'' \<mapsto>
         \<lparr> session.company_id = ''co-1'', session.step = 1,
           session.data = [''revenue'' \<mapsto> Finite 500],
           session.started_at = ''2024-01-01T00:00:00'' \<rparr>])"
    by (simp add: prod_eq_iff fresh_sessions_eq step_request_def snd_conversation_step
          fst_conversation_step_next py_index_def bind_def next_step_response_def
          CONVERSATION_FLOW_def)
  ultimately show ?thesis by (simp add: fresh_sessions_eq)
qed

text \<open>
  Claim C1, as the handler has it. On an existing session, a step call whose value the
  request model accepts as a float (a number, or a text that spells one) is not
  checked against the bounds of any step: whatever the value, it is recorded under the
  submitted field and the step ordinal is set to the declared step plus one; the call
  raises no validation error and no other client error (it can only raise
  \<open>IndexError\<close> for a declared step of \<open>-8\<close> or below, and an arithmetic error of the
  valuation from step 5 on), and for declared steps from \<open>-7\<close> to 4 it returns the next
  step of the catalog with \<open>complete\<close> false.
\<close>

theorem step_records_unchecked:
  assumes "sessions sid = Some s" and "validate_value raw = Inr x"
  shows "snd (post_conversation_step now_ts cid sid st fld raw sessions) =
           sessions(sid \<mapsto>
             s\<lparr> session.data := (session.data s)(fld \<mapsto> x), session.step := st + 1 \<rparr>) \<and>
         (\<forall>code detail. fst (post_conversation_step now_ts cid sid st fld raw sessions) \<noteq> Inl (HTTPException code detail)) \<and>
         fst (post_conversation_step now_ts cid sid st fld raw sessions) \<noteq> Inl RequestValidationError \<and>
         (\<forall>e. fst (post_conversation_step now_ts cid sid st fld raw sessions) = Inl e \<longrightarrow>
            e = IndexError \<and> st \<le> - 8 \<or> (e = OverflowError \<or> e = ValueError) \<and> 5 \<le> st) \<and>
         (- 7 \<le> st \<and> st \<le> 4 \<longrightarrow>
            fst (post_conversation_step now_ts cid sid st fld raw sessions) =
              Inr \<lparr> complete = False,
                    ai_message = flow_step.ai_message_template (CONVERSATION_FLOW ! nat (if st + 1 < 0 then 6 + (st + 1) else st + 1)),
                    step = Some (flow_step.step (CONVERSATION_FLOW ! nat (if st + 1 < 0 then 6 + (st + 1) else st + 1))),
                    next_field = Some (flow_step.field (CONVERSATION_FLOW ! nat (if st + 1 < 0 then 6 + (st + 1) else st + 1))),
                    input_type = Some (flow_step.input_type (CONVERSATION_FLOW ! nat (if st + 1 < 0 then 6 + (st + 1) else st + 1))),
                    help_text = Some (flow_step.help_text (CONVERSATION_FLOW ! nat (if st + 1 < 0 then 6 + (st + 1) else st + 1))),
                    validation = Some (flow_step.validation (CONVERSATION_FLOW ! nat (if st + 1 < 0 then 6 + (st + 1) else st + 1))),
                    valuation_result = None, error = None \<rparr>)"
proof -
  define request where
    "request = \<lparr> company_id = cid, session_id = sid, step = st, field = fld, value = x \<rparr>"
  have sel: "session_id request = sid" "ConversationStepRequest.step request = st"
    "field request = fld" "value request = x"
    by (simp_all add: request_def)
  have post: "post_conversation_step now_ts cid sid st fld raw sessions = conversation_step now_ts request sessions"
    using assms(2) by (simp add: post_conversation_step_def request_def)
  have entry: "sessions (session_id request) = Some s"
    using assms(1) by (simp add: sel)
  have a: "snd (conversation_step now_ts request sessions) =
           sessions(sid \<mapsto>
             s\<lparr> session.data := (session.data s)(fld \<mapsto> x), session.step := st + 1 \<rparr>)"
    using snd_conversation_step [of sessions request s now_ts] entry by (simp add: sel)
  have err: "e = IndexError \<and> st \<le> - 8 \<or> (e = OverflowError \<or> e = ValueError) \<and> 5 \<le> st"
    if "fst (conversation_step now_ts request sessions) = Inl e" for e
    using conversation_step_error [of sessions request s now_ts e] entry that
    by (simp add: sel)
  have b: "\<forall>code detail. fst (conversation_step now_ts request sessions)
             \<noteq> Inl (HTTPException code detail)"
    using err by blast
  have c: "fst (conversation_step now_ts request sessions) \<noteq> Inl RequestValidationError"
    using err by blast
  have d: "\<forall>e. fst (conversation_step now_ts request sessions) = Inl e \<longrightarrow>
            e = IndexError \<and> st \<le> - 8 \<or> (e = OverflowError \<or> e = ValueError) \<and> 5 \<le> st"
    using err by blast
  have e: "- 7 \<le> st \<and> st \<le> 4 \<longrightarrow>
            fst (conversation_step now_ts request sessions) =
              Inr \<lparr> complete = False,
                    ai_message = flow_step.ai_message_template (CONVERSATION_FLOW ! nat (if st + 1 < 0 then 6 + (st + 1) else st + 1)),
                    step = Some (flow_step.step (CONVERSATION_FLOW ! nat (if st + 1 < 0 then 6 + (st + 1) else st + 1))),
                    next_field = Some (flow_step.field (CONVERSATION_FLOW ! nat (if st + 1 < 0 then 6 + (st + 1) else st + 1))),
                    input_type = Some (flow_step.input_type (CONVERSATION_FLOW ! nat (if st + 1 < 0 then 6 + (st + 1) else st + 1))),
                    help_text = Some (flow_step.help_text (CONVERSATION_FLOW ! nat (if st + 1 < 0 then 6 + (st + 1) else st + 1))),
                    validation = Some (flow_step.validation (CONVERSATION_FLOW ! nat (if st + 1 < 0 then 6 + (st + 1) else st + 1))),
                    valuation_result = None, error = None \<rparr>"
    using entry
    by (simp add: fst_conversation_step_next py_index_flow_in_range bind_def sel
          next_step_response_def)
  from a b c d e show ?thesis
    unfolding post by (intro conjI)
qed

theorem step_records_unchecked_witness:
  "fresh_sessions ''sess-1'' =
     Some \<lparr> session.company_id = ''co-1'', session.step = 0, session.data = Map.empty,
            session.started_at = ''2024-01-01T00:00:00'' \<rparr> \<and>
   validate_value (RawNumber (Finite 500)) = Inr (Finite 500) \<and>
   validate_value (RawText ''500'') = Inr (Finite 500) \<and>
   spec_violates_rule (CONVERSATION_FLOW ! 0) (Finite 500) \<and>
   post_conversation_step 0 ''co-1'' ''sess-1'' 0 ''revenue'' (RawNumber (Finite 500)) fresh_sessions =
     (Inr \<lparr> complete = False,
             ai_message = ''Great! Now, what was your EBITDA (earnings before interest, taxes, depreciation, and amortization) last year?'',
             step = Some 1, next_field = Some ''ebitda'', input_type = Some ''number'',
             help_text = Some (''Enter your EBITDA (earnings before interest, taxes, depreciation, and amortization)''),
             validation = Some \<lparr> min_bound = 0, max_bound = 500000000 \<rparr>,
             valuation_result = None, error = None \<rparr>,
      [''sess-1'' \<mapsto>
         \<lparr> session.company_id = ''co-1'', session.step = 1,
           session.data = [''revenue'' \<mapsto> Finite 500],
           session.started_at = ''2024-01-01T00:00:00'' \<rparr>]) \<and>
   post_conversation_step 0 ''co-1'' ''sess-1'' 0 ''revenue'' (RawText ''500'') fresh_sessions =
     (Inr \<lparr> complete = False,
             ai_message = ''Great! Now, what was your EBITDA (earnings before interest, taxes, depreciation, and amortization) last year?'',
             step = Some 1, next_field = Some ''ebitda'', input_type = Some ''number'',
             help_text = Some (''Enter your EBITDA (earnings before interest, taxes, depreciation, and amortization)''),
             validation = Some \<lparr> min_bound = 0, max_bound = 500000000 \<rparr>,
             valuation_result = None, error = None \<rparr>,
      [''sess-1'' \<mapsto>
         \<lparr> session.company_id = ''co-1'', session.step = 1,
           session.data = [''revenue'' \<mapsto> Finite 500],
           session.started_at = ''2024-01-01T00:00:00'' \<rparr>])"
proof -
  have entry: "fresh_sessions ''sess-1'' =
     Some \<lparr> session.company_id = ''co-1'', session.step = 0, session.data = Map.empty,
            session.started_at = ''2024-01-01T00:00:00'' \<rparr>"
    by (simp add: fresh_sessions_eq)
  have num: "validate_value (RawNumber (Finite 500)) = Inr (Finite 500)"
    by (simp add: validate_value_def)
  have "float_of_str ''500'' = Some (Finite 500)" by code_simp
  then have text_ok: "validate_value (RawText ''500'') = Inr (Finite 500)"
    by (simp add: validate_value_def)
  have bad: "spec_violates_rule (CONVERSATION_FLOW ! 0) (Finite 500)"
    by (simp add: spec_violates_rule_def CONVERSATION_FLOW_def)
  from step_records_unchecked [where sessions = fresh_sessions and sid = "''sess-1''"
      and raw = "RawNumber (Finite 500)" and x = "Finite 500" and now_ts = 0
      and cid = "''co-1''" and st = 0 and fld = "''revenue''", OF entry num]
  have a: "post_conversation_step 0 ''co-1'' ''sess-1'' 0 ''revenue'' (RawNumber (Finite 500)) fresh_sessions =
     (Inr \<lparr> complete = False,
             ai_message = ''Great! Now, what was your EBITDA (earnings before interest, taxes, depreciation, and amortization) last year?'',
             step = Some 1, next_field = Some ''ebitda'', input_type = Some ''number'',
             help_text = Some (''Enter your EBITDA (earnings before interest, taxes, depreciation, and amortization)''),
             validation = Some \<lparr> min_bound = 0, max_bound = 500000000 \<rparr>,
             valuation_result = None, error = None \<rparr>,
      [''sess-1'' \<mapsto>
         \<lparr> session.company_id = ''co-1'', session.step = 1,
           session.data = [''revenue'' \<mapsto> Finite 500],
           session.started_at = ''2024-01-01T00:00:00'' \<rparr>])"
    by (simp add: prod_eq_iff CONVERSATION_FLOW_def fresh_sessions_eq)
  from step_records_unchecked [where sessions = fresh_sessions and sid = "''sess-1''"
      and raw = "RawText ''500''" and x = "Finite 500" and now_ts = 0
      and cid = "''co-1''" and st = 0 and fld = "''revenue''", OF entry text_ok]
  have b: "post_conversation_step 0 ''co-1'' ''sess-1'' 0 ''revenue'' (RawText ''500'') fresh_sessions =
     (Inr \<lparr> complete = False,
             ai_message = ''Great! Now, what was your EBITDA (earnings before interest, taxes, depreciation, and amortization) last year?'',
             step = Some 1, next_field = Some ''ebitda'', input_type = Some ''number'',
             help_text = Some (''Enter your EBITDA (earnings before interest, taxes, depreciation, and amortization)''),
             validation = Some \<lparr> min_bound = 0, max_bound = 500000000 \<rparr>,
             valuation_result = None, error = None \<rparr>,
      [''sess-1'' \<mapsto>
         \<lparr> session.company_id = ''co-1'', session.step = 1,
           session.data = [''revenue'' \<mapsto> Finite 500],
           session.started_at = ''2024-01-01T00:00:00'' \<rparr>])"
    by (simp add: prod_eq_iff CONVERSATION_FLOW_def fresh_sessions_eq)
  from entry num text_ok bad a b show ?thesis by (intro conjI)
qed

section \<open>The stored step ordinal\<close>

text \<open>
  Claim C3 says that a successful step call adds exactly one to the stored ordinal and
  never lowers it. The handler stores the declared step plus one without reading the
  stored ordinal: a session at 0 answering step 3 goes to 4, and a session at 5
  answering step 0 goes back to 1; both calls succeed.
\<close>

theorem monotonic_advance_counterexample:
  "map_option session.step (fresh_sessions ''sess-1'') = Some 0 \<and>
   returns_in_progress
     (fst (conversation_step 0 (step_request 3 ''industry'' (Finite 7)) fresh_sessions)) \<and>
   map_option session.step
     (snd (conversation_step 0 (step_request 3 ''industry'' (Finite 7)) fresh_sessions) ''sess-1'')
     = Some 4 \<and>
   map_option session.step (answered_sessions ''sess-1'') = Some 5 \<and>
   returns_in_progress
     (fst (conversation_step 0 (step_request 0 ''revenue'' (Finite 2000000)) answered_sessions)) \<and>
   map_option session.step
     (snd (conversation_step 0 (step_request 0 ''revenue'' (Finite 2000000)) answered_sessions)
        ''sess-1'')
     = Some 1"
  by (simp add: fresh_sessions_eq answered_sessions_eq step_request_def snd_conversation_step
        fst_conversation_step_next py_index_def bind_def returns_in_progress_def
        next_step_response_def)

text \<open>
  Claim C3, as the handler has it. After a step call on an existing session the stored
  ordinal is the declared step plus one. It is the former ordinal plus one exactly
  when the declared step is the former ordinal, and it is lower than the former
  ordinal exactly when the declared step plus one is.
\<close>

theorem step_ordinal_follows_request:
  assumes "sessions (session_id request) = Some s"
  shows "\<exists>s'. snd (conversation_step now_ts request sessions) (session_id request) = Some s' \<and>
           session.step s' = ConversationStepRequest.step request + 1 \<and>
           (session.step s' = session.step s + 1
              \<longleftrightarrow> ConversationStepRequest.step request = session.step s) \<and>
           (session.step s' < session.step s
              \<longleftrightarrow> ConversationStepRequest.step request + 1 < session.step s)"
  using assms by (simp add: snd_conversation_step)

theorem step_ordinal_follows_request_witness:
  "fresh_sessions (session_id (step_request 0 ''revenue'' (Finite 2000000))) =
     Some \<lparr> session.company_id = ''co-1'', session.step = 0, session.data = Map.empty,
            session.started_at = ''2024-01-01T00:00:00'' \<rparr> \<and>
   (\<exists>s'. snd (conversation_step 0 (step_request 0 ''revenue'' (Finite 2000000)) fresh_sessions)
           ''sess-1'' = Some s' \<and> session.step s' = 1)"
proof -
  have entry: "fresh_sessions (session_id (step_request 0 ''revenue'' (Finite 2000000))) =
     Some \<lparr> session.company_id = ''co-1'', session.step = 0, session.data = Map.empty,
            session.started_at = ''2024-01-01T00:00:00'' \<rparr>"
    by (simp add: fresh_sessions_eq step_request_def)
  from step_ordinal_follows_request [where sessions = fresh_sessions and now_ts = 0
      and request = "step_request 0 ''revenue'' (Finite 2000000)", OF entry]
  have "\<exists>s'. snd (conversation_step 0 (step_request 0 ''revenue'' (Finite 2000000)) fresh_sessions)
           ''sess-1'' = Some s' \<and> session.step s' = 1"
    by (auto simp: step_request_def)
  with entry show ?thesis by simp
qed

section \<open>Finite products stay finite\<close>

text \<open>
  Rounding a rational below \<open>2 ^ 1023\<close> in magnitude gives a finite double, at most
  twice as large plus one; so the products of the valuation are finite for every
  revenue of a realistic size.
\<close>

lemma pow2_power_int: "pow2 k = power_int 2 k"
  by (simp add: pow2_def power_int_def field_simps power_inverse [symmetric])

lemma pow2_pos: "0 < pow2 k"
  by (simp add: pow2_power_int)

lemma pow2_mono: "i \<le> j \<Longrightarrow> pow2 i \<le> pow2 j"
  by (simp add: pow2_power_int power_int_increasing)

lemma pow2_less_imp: "pow2 i < pow2 j \<Longrightarrow> i < j"
  using pow2_mono [of j i] by (cases "i < j") auto

lemma pow2_diff: "pow2 (i - j) = pow2 i / pow2 j"
  by (simp add: pow2_power_int power_int_diff)

lemma floor_log2_le:
  assumes "0 < a"
  shows "pow2 (floor_log2 a) \<le> a"
proof -
  obtain n d where nd: "quotient_of a = (n, d)" by (cases "quotient_of a")
  then have d: "0 < d" and a: "a = of_int n / of_int d"
    using quotient_of_denom_pos quotient_of_div by auto
  from assms a d have n: "0 < n"
    by (simp add: zero_less_divide_iff)
  let ?k = "bitlen n - bitlen d"
  have bn: "1 \<le> bitlen n" using n by (simp add: bitlen_alt_def)
  have "(2::int) ^ nat (bitlen n - 1) \<le> n" using bitlen_bounds [OF n] by simp
  then have "(of_int ((2::int) ^ nat (bitlen n - 1)) :: rat) \<le> of_int n"
    by (simp only: of_int_le_iff)
  then have lo: "pow2 (bitlen n - 1) \<le> of_int n"
    using bn by (simp add: pow2_def)
  have "d < 2 ^ nat (bitlen d)" using bitlen_bounds [OF d] by simp
  then have "(of_int d :: rat) < of_int (2 ^ nat (bitlen d))"
    by (simp only: of_int_less_iff)
  then have hi: "of_int d \<le> pow2 (bitlen d)"
    using bitlen_nonneg [of d] by (simp add: pow2_def)
  have "pow2 (?k - 1) = pow2 (bitlen n - 1) / pow2 (bitlen d)"
    using pow2_diff [of "bitlen n - 1" "bitlen d"] by (simp add: algebra_simps)
  also have "\<dots> \<le> of_int n / of_int d"
    using lo hi d n pow2_pos [of "bitlen d"] pow2_pos [of "bitlen n - 1"]
    by (intro frac_le) auto
  finally have "pow2 (?k - 1) \<le> a" using a by simp
  then show ?thesis
    by (simp add: floor_log2_def nd Let_def)
qed

lemma round_half_even_le: "of_int (round_half_even x) \<le> x + 1 / 2"
proof -
  define f where "f = \<lfloor>x\<rfloor>"
  have "rat_of_int f \<le> x" by (simp add: f_def)
  then show ?thesis
    by (auto simp: round_half_even_def Let_def f_def [symmetric])
qed

lemma round_half_even_nonneg: "0 \<le> x \<Longrightarrow> 0 \<le> round_half_even x"
  by (auto simp: round_half_even_def Let_def)

lemma round_double_finite:
  assumes "\<bar>q\<bar> < 2 ^ 1023"
  shows "\<exists>r. round_double q = Finite r \<and> \<bar>r\<bar> \<le> 2 * \<bar>q\<bar> + 1"
proof (cases "q = 0")
  case True
  then show ?thesis by (simp add: round_double_def)
next
  case False
  define a where "a = \<bar>q\<bar>"
  define e where "e = max (floor_log2 a) (- 1022)"
  define m where "m = round_half_even (a * pow2 (52 - e))"
  have apos: "0 < a" using False by (simp add: a_def)
  have "pow2 (floor_log2 a) \<le> a" using floor_log2_le [OF apos] .
  also have "a < pow2 1023" using assms by (simp add: a_def pow2_def)
  finally have "floor_log2 a < 1023" by (rule pow2_less_imp)
  then have e: "e < 1023" by (simp add: e_def)
  have rd: "round_double q = Finite (sgn q * of_int m * pow2 (e - 52))"
    using False e by (simp add: round_double_def Let_def a_def [symmetric] e_def [symmetric] m_def [symmetric])
  have m0: "0 \<le> m"
    unfolding m_def using apos pow2_pos [of "52 - e"]
    by (intro round_half_even_nonneg) simp
  have "of_int m \<le> a * pow2 (52 - e) + 1 / 2"
    unfolding m_def by (rule round_half_even_le)
  then have "of_int m * pow2 (e - 52) \<le> (a * pow2 (52 - e) + 1 / 2) * pow2 (e - 52)"
    using pow2_pos [of "e - 52"] by (simp add: mult_right_mono)
  also have "\<dots> = a + pow2 (e - 52) / 2"
  proof -
    have "pow2 (52 - e) * pow2 (e - 52) = 1"
      using pow2_pos [of 52] pow2_pos [of e] by (simp add: pow2_diff)
    then show ?thesis by (simp add: algebra_simps)
  qed
  also have "\<dots> \<le> a + (a + 1)"
  proof -
    have "pow2 (e - 52) \<le> a + 1"
    proof (cases "floor_log2 a \<le> - 1022")
      case True
      then have "e = - 1022" by (simp add: e_def)
      then have "pow2 (e - 52) \<le> pow2 0" by (intro pow2_mono) simp
      then show ?thesis using apos by (simp add: pow2_def)
    next
      case False
      then have "e = floor_log2 a" by (simp add: e_def)
      then have "pow2 (e - 52) \<le> pow2 (floor_log2 a)" by (intro pow2_mono) simp
      with floor_log2_le [OF apos] show ?thesis by simp
    qed
    with pow2_pos [of "e - 52"] show ?thesis by simp
  qed
  finally have bound: "of_int m * pow2 (e - 52) \<le> 2 * a + 1" by simp
  have "\<bar>sgn q * of_int m * pow2 (e - 52)\<bar> = of_int m * pow2 (e - 52)"
    using False m0 pow2_pos [of "e - 52"] by (simp add: abs_mult abs_sgn_eq)
  with bound rd show ?thesis by (simp add: a_def)
qed


lemma float_lit_5_2: "float_lit (5 / 2) = Finite (5 / 2)"
  by code_simp

lemma float_lit_4_5: "float_lit (4 / 5) = Finite (3602879701896397 / 4503599627370496)"
  by code_simp

lemma float_lit_6_5: "float_lit (6 / 5) = Finite (5404319552844595 / 4503599627370496)"
  by code_simp

lemma trunc_rat_abs_le: "\<bar>of_int (trunc_rat q)\<bar> \<le> \<bar>q\<bar>"
proof (cases "0 \<le> q")
  case True
  then show ?thesis by (simp add: trunc_rat_def)
next
  case False
  then have "q \<le> of_int \<lceil>q\<rceil>" "\<lceil>q\<rceil> \<le> 0"
    by (simp_all add: ceiling_le_zero)
  with False show ?thesis by (simp add: trunc_rat_def)
qed

lemma float_of_int_finite:
  assumes "\<bar>rat_of_int i\<bar> < 2 ^ 1023"
  shows "\<exists>r. float_of_int i = Inr (Finite r) \<and> \<bar>r\<bar> \<le> 2 * \<bar>of_int i\<bar> + 1"
  using round_double_finite [OF assms] by (auto simp: float_of_int_def)

lemma mock_valuation_returns_aux:
  assumes rev: "d ''revenue'' = Some (Finite q) \<or> d ''revenue'' = None \<and> q = 1000000"
    and bound: "\<bar>q\<bar> \<le> 10 ^ 300"
  shows "\<exists>result. mock_valuation now_ts d = Inr result"
proof -
  define revenue where "revenue = get_default d ''revenue'' (PyInt 1000000)"
  have mul: "mul_float revenue c = Inr (float_mul (Finite q) c)" for c
    using rev by (auto simp: revenue_def get_default_def mul_float_PyFloat mul_float_million)
  have big: "(10::rat) ^ 300 * 100 < 2 ^ 1023" by simp
  have "\<bar>q * (5 / 2)\<bar> < 2 ^ 1023"
    using bound big by (simp add: abs_mult)
  from round_double_finite [OF this]
  obtain r1 where r1: "float_mul (Finite q) (Finite (5 / 2)) = Finite r1"
    and b1: "\<bar>r1\<bar> \<le> 5 * \<bar>q\<bar> + 1"
    by (auto simp: float_mul_def abs_mult)
  define valuation where "valuation = trunc_rat r1"
  have bv: "\<bar>rat_of_int valuation\<bar> \<le> 5 * \<bar>q\<bar> + 1"
    using trunc_rat_abs_le [of r1] b1 by (simp add: valuation_def)
  then have "\<bar>rat_of_int valuation\<bar> < 2 ^ 1023"
    using bound big by simp
  from float_of_int_finite [OF this]
  obtain r2 where r2: "float_of_int valuation = Inr (Finite r2)"
    and b2: "\<bar>r2\<bar> \<le> 10 * \<bar>q\<bar> + 3"
    using bv by auto
  have mulv: "mul_float (PyInt valuation) c = Inr (float_mul (Finite r2) c)" for c
    by (simp add: mul_float_def r2 bind_def)
  have "\<bar>r2 * (3602879701896397 / 4503599627370496)\<bar> \<le> \<bar>r2\<bar>"
    by (simp add: abs_mult)
  then have "\<bar>r2 * (3602879701896397 / 4503599627370496)\<bar> < 2 ^ 1023"
    using b2 bound big by simp
  from round_double_finite [OF this]
  obtain r3 where r3: "float_mul (Finite r2) (Finite (3602879701896397 / 4503599627370496)) = Finite r3"
    by (auto simp: float_mul_def)
  have "\<bar>r2 * (5404319552844595 / 4503599627370496)\<bar> \<le> 2 * \<bar>r2\<bar>"
    by (simp add: abs_mult)
  then have "\<bar>r2 * (5404319552844595 / 4503599627370496)\<bar> < 2 ^ 1023"
    using b2 bound big by simp
  from round_double_finite [OF this]
  obtain r4 where r4: "float_mul (Finite r2) (Finite (5404319552844595 / 4503599627370496)) = Finite r4"
    by (auto simp: float_mul_def)
  show ?thesis
    unfolding mock_valuation_def Let_def revenue_def [symmetric]
    by (simp add: mul mulv bind_def int_times_def float_lit_5_2 float_lit_4_5 float_lit_6_5
          r1 r3 r4 int_of_float_def valuation_def [symmetric])
qed


section \<open>The valuation branch\<close>

lemma bind_Inr: "bind r f = Inr y \<longleftrightarrow> (\<exists>x. r = Inr x \<and> f x = Inr y)"
  by (cases r) (simp_all add: bind_def)

lemma mock_valuation_Inr:
  assumes "mock_valuation now_ts d = Inr result"
  obtains e v lo hi where
    "mul_float (get_default d ''revenue'' (PyInt 1000000)) (float_lit (2 / 10)) = Inr e"
    "int_times (get_default d ''revenue'' (PyInt 1000000)) (float_lit (25 / 10)) = Inr v"
    "int_times (PyInt v) (float_lit (8 / 10)) = Inr lo"
    "int_times (PyInt v) (float_lit (12 / 10)) = Inr hi"
    "result = \<lparr> valuation_id = ''val_'' @ str_int now_ts,
                  equity_value = v,
                  valuation_range_min = lo,
                  valuation_range_max = hi,
                  confidence_score = float_lit (85 / 100),
                  methodology = ''DCF + Market Multiples'',
                  company_name = ''Demo Company'',
                  revenue = get_default d ''revenue'' (PyInt 1000000),
                  ebitda = get_default d ''ebitda'' (PyFloat e),
                  employees = get_default d ''employees'' (PyInt 10),
                  industry = get_default d ''industry'' (PyStr ''Technology''),
                  country = get_default d ''country'' (PyStr ''Belgium''),
                  growth_rate = get_default d ''growth_rate'' (PyInt 15) \<rparr>"
  using assms unfolding mock_valuation_def Let_def bind_Inr by force


lemma mock_valuation_returns:
  assumes "d ''revenue'' = None \<or>
           (\<exists>q. d ''revenue'' = Some (Finite q) \<and> \<bar>q\<bar> \<le> 10 ^ 300)"
  shows "\<exists>result. mock_valuation now_ts d = Inr result"
  using assms
proof
  assume none: "d ''revenue'' = None"
  have "(10::rat) ^ 6 \<le> 10 ^ 300"
    by (rule power_increasing) simp_all
  then have "\<bar>1000000::rat\<bar> \<le> 10 ^ 300" by simp
  with none show ?thesis
    by (intro mock_valuation_returns_aux [where q = 1000000]) simp_all
next
  assume "\<exists>q. d ''revenue'' = Some (Finite q) \<and> \<bar>q\<bar> \<le> 10 ^ 300"
  then obtain q where "d ''revenue'' = Some (Finite q)" "\<bar>q\<bar> \<le> 10 ^ 300"
    by blast
  then show ?thesis
    by (intro mock_valuation_returns_aux [where q = q]) simp_all
qed

lemma mock_valuation_other_time:
  assumes "mock_valuation now_ts d = Inr result"
  shows "mock_valuation ts' d = Inr (result\<lparr> valuation_id := ''val_'' @ str_int ts' \<rparr>)"
proof -
  from assms obtain e v lo hi where
    "mul_float (get_default d ''revenue'' (PyInt 1000000)) (float_lit (2 / 10)) = Inr e"
    "int_times (get_default d ''revenue'' (PyInt 1000000)) (float_lit (25 / 10)) = Inr v"
    "int_times (PyInt v) (float_lit (8 / 10)) = Inr lo"
    "int_times (PyInt v) (float_lit (12 / 10)) = Inr hi"
    "result = \<lparr> valuation_id = ''val_'' @ str_int now_ts,
                  equity_value = v,
                  valuation_range_min = lo,
                  valuation_range_max = hi,
                  confidence_score = float_lit (85 / 100),
                  methodology = ''DCF + Market Multiples'',
                  company_name = ''Demo Company'',
                  revenue = get_default d ''revenue'' (PyInt 1000000),
                  ebitda = get_default d ''ebitda'' (PyFloat e),
                  employees = get_default d ''employees'' (PyInt 10),
                  industry = get_default d ''industry'' (PyStr ''Technology''),
                  country = get_default d ''country'' (PyStr ''Belgium''),
                  growth_rate = get_default d ''growth_rate'' (PyInt 15) \<rparr>"
    by (rule mock_valuation_Inr)
  then show ?thesis
    unfolding mock_valuation_def Let_def by (simp add: bind_def)
qed

lemma conversation_step_completes:
  assumes "sessions (session_id request) = Some s"
    and "fst (conversation_step now_ts request sessions) = Inr response"
    and "complete response"
  shows "5 \<le> ConversationStepRequest.step request"
    and "\<exists>result. response = complete_response result \<and>
           mock_valuation now_ts ((session.data s)(field request \<mapsto> value request)) = Inr result"
proof -
  show five: "5 \<le> ConversationStepRequest.step request"
  proof (rule ccontr)
    assume "\<not> 5 \<le> ConversationStepRequest.step request"
    with assms show False
      by (auto simp: fst_conversation_step_next bind_def next_step_response_def
               split: sum.splits)
  qed
  with assms show "\<exists>result. response = complete_response result \<and>
           mock_valuation now_ts ((session.data s)(field request \<mapsto> value request)) = Inr result"
    by (auto simp: fst_conversation_step_last bind_def split: sum.splits)
qed

section \<open>Completion\<close>

lemma answered_entry:
  "answered_with r (session_id (step_request st fld v)) =
     Some \<lparr> session.company_id = ''co-1'', session.step = 5,
       session.data = [''revenue'' \<mapsto> r, ''ebitda'' \<mapsto> Finite 400000,
                       ''employees'' \<mapsto> Finite 25, ''industry'' \<mapsto> Finite 7,
                       ''growth_rate'' \<mapsto> Finite 15],
       session.started_at = ''2024-01-01T00:00:00'' \<rparr>"
  by (simp add: answered_with_eq step_request_def)

lemma valuation_two_million:
  "mock_valuation 0 [''revenue'' \<mapsto> Finite 2000000, ''ebitda'' \<mapsto> Finite 400000,
                     ''employees'' \<mapsto> Finite 25, ''industry'' \<mapsto> Finite 7,
                     ''growth_rate'' \<mapsto> Finite 15, ''country'' \<mapsto> Finite 1] =
   Inr \<lparr> valuation_id = ''val_0'', equity_value = 5000000,
         valuation_range_min = 4000000, valuation_range_max = 6000000,
         confidence_score = Finite (7656119366529843 / 9007199254740992),
         methodology = ''DCF + Market Multiples'', company_name = ''Demo Company'',
         revenue = PyFloat (Finite 2000000), ebitda = PyFloat (Finite 400000),
         employees = PyFloat (Finite 25), industry = PyFloat (Finite 7),
         country = PyFloat (Finite 1), growth_rate = PyFloat (Finite 15) \<rparr>"
  by code_simp

text \<open>
  Claim C2 says that completion is signalled if and only if the declared step is the
  last ordinal, 5. The handler compares with \<open>>=\<close>: a declared step of 6 on a session
  that answered steps 0 to 4 signals completion as well.
\<close>

theorem completion_counterexample:
  "ConversationStepRequest.step (step_request 6 ''country'' (Finite 1))
     \<noteq> int (length CONVERSATION_FLOW) - 1 \<and>
   signals_completion
     (fst (conversation_step 0 (step_request 6 ''country'' (Finite 1)) answered_sessions)) \<and>
   fst (conversation_step 0 (step_request 6 ''country'' (Finite 1)) answered_sessions) =
     Inr (complete_response
       \<lparr> valuation_id = ''val_0'', equity_value = 5000000,
         valuation_range_min = 4000000, valuation_range_max = 6000000,
         confidence_score = Finite (7656119366529843 / 9007199254740992),
         methodology = ''DCF + Market Multiples'', company_name = ''Demo Company'',
         revenue = PyFloat (Finite 2000000), ebitda = PyFloat (Finite 400000),
         employees = PyFloat (Finite 25), industry = PyFloat (Finite 7),
         country = PyFloat (Finite 1), growth_rate = PyFloat (Finite 15) \<rparr>)"
proof -
  have "fst (conversation_step 0 (step_request 6 ''country'' (Finite 1)) answered_sessions) =
     Inr (complete_response
       \<lparr> valuation_id = ''val_0'', equity_value = 5000000,
         valuation_range_min = 4000000, valuation_range_max = 6000000,
         confidence_score = Finite (7656119366529843 / 9007199254740992),
         methodology = ''DCF + Market Multiples'', company_name = ''Demo Company'',
         revenue = PyFloat (Finite 2000000), ebitda = PyFloat (Finite 400000),
         employees = PyFloat (Finite 25), industry = PyFloat (Finite 7),
         country = PyFloat (Finite 1), growth_rate = PyFloat (Finite 15) \<rparr>)"
    by (simp add: answered_sessions_eq step_request_def fst_conversation_step_last
          valuation_two_million bind_def)
  then show ?thesis
    by (simp add: signals_completion_def complete_response_def step_request_def)
qed

text \<open>
  Claim C2, as the handler has it. On an existing session a step call signals
  completion only if the declared step is at least the last ordinal of the flow (5 or
  more, not 5 alone). From the last ordinal on, the call signals completion unless the
  arithmetic of the valuation raises (\<open>OverflowError\<close> or \<open>ValueError\<close>, on a revenue
  that is NaN, infinite or so large that a product overflows), and it does signal it
  when no revenue is recorded or the recorded one is finite of magnitude at most
  \<open>10 ^ 300\<close>. For declared steps from \<open>-7\<close> to 4 the call returns an in-progress
  response, and below \<open>-7\<close> it raises \<open>IndexError\<close>.
\<close>

theorem completion_from_last_step_on:
  assumes "sessions (session_id request) = Some s"
  shows "(signals_completion (fst (conversation_step now_ts request sessions))
            \<longrightarrow> int (length CONVERSATION_FLOW) - 1 \<le> ConversationStepRequest.step request) \<and>
         (int (length CONVERSATION_FLOW) - 1 \<le> ConversationStepRequest.step request
            \<longrightarrow> signals_completion (fst (conversation_step now_ts request sessions))
                \<or> fst (conversation_step now_ts request sessions) = Inl OverflowError
                \<or> fst (conversation_step now_ts request sessions) = Inl ValueError) \<and>
         (int (length CONVERSATION_FLOW) - 1 \<le> ConversationStepRequest.step request \<and>
          (((session.data s)(field request \<mapsto> value request)) ''revenue'' = None \<or>
           (\<exists>q. ((session.data s)(field request \<mapsto> value request)) ''revenue'' = Some (Finite q)
                \<and> \<bar>q\<bar> \<le> 10 ^ 300))
            \<longrightarrow> signals_completion (fst (conversation_step now_ts request sessions))) \<and>
         (- 7 \<le> ConversationStepRequest.step request \<and>
          ConversationStepRequest.step request < int (length CONVERSATION_FLOW) - 1
            \<longrightarrow> returns_in_progress (fst (conversation_step now_ts request sessions))) \<and>
         (ConversationStepRequest.step request \<le> - 8
            \<longrightarrow> fst (conversation_step now_ts request sessions) = Inl IndexError)"
proof -
  define R where "R = fst (conversation_step now_ts request sessions)"
  define d where "d = (session.data s)(field request \<mapsto> value request)"
  have last: "R = bind (mock_valuation now_ts d) (\<lambda>result. Inr (complete_response result))"
    if "5 \<le> ConversationStepRequest.step request"
    unfolding R_def d_def using assms that by (rule fst_conversation_step_last)
  have a: "signals_completion R \<longrightarrow> 5 \<le> ConversationStepRequest.step request"
  proof
    assume "signals_completion R"
    then obtain response where "R = Inr response" "complete response"
      by (cases R) (simp_all add: signals_completion_def)
    then show "5 \<le> ConversationStepRequest.step request"
      unfolding R_def using assms conversation_step_completes(1) by blast
  qed
  have b: "5 \<le> ConversationStepRequest.step request
            \<longrightarrow> signals_completion R \<or> R = Inl OverflowError \<or> R = Inl ValueError"
  proof
    assume five: "5 \<le> ConversationStepRequest.step request"
    show "signals_completion R \<or> R = Inl OverflowError \<or> R = Inl ValueError"
    proof (cases "mock_valuation now_ts d")
      case (Inl e)
      from mock_valuation_error [OF Inl] have "e = OverflowError \<or> e = ValueError" .
      moreover from Inl last [OF five] have "R = Inl e" by (simp add: bind_def)
      ultimately show ?thesis by blast
    next
      case (Inr result)
      with last [OF five] have "R = Inr (complete_response result)" by (simp add: bind_def)
      then show ?thesis
        by (simp add: signals_completion_def complete_response_def)
    qed
  qed
  have c: "5 \<le> ConversationStepRequest.step request \<and>
          (d ''revenue'' = None \<or> (\<exists>q. d ''revenue'' = Some (Finite q) \<and> \<bar>q\<bar> \<le> 10 ^ 300))
            \<longrightarrow> signals_completion R"
  proof
    assume h: "5 \<le> ConversationStepRequest.step request \<and>
          (d ''revenue'' = None \<or> (\<exists>q. d ''revenue'' = Some (Finite q) \<and> \<bar>q\<bar> \<le> 10 ^ 300))"
    then have five: "5 \<le> ConversationStepRequest.step request"
      and "d ''revenue'' = None \<or> (\<exists>q. d ''revenue'' = Some (Finite q) \<and> \<bar>q\<bar> \<le> 10 ^ 300)"
      by blast+
    then obtain result where "mock_valuation now_ts d = Inr result"
      using mock_valuation_returns [of d now_ts] by blast
    with last [OF five] have "R = Inr (complete_response result)" by (simp add: bind_def)
    then show "signals_completion R"
      by (simp add: signals_completion_def complete_response_def)
  qed
  have d: "- 7 \<le> ConversationStepRequest.step request \<and> ConversationStepRequest.step request < 5
            \<longrightarrow> returns_in_progress R"
    unfolding R_def using assms
    by (simp add: fst_conversation_step_next py_index_flow_in_range bind_def
          returns_in_progress_def next_step_response_def)
  have e: "ConversationStepRequest.step request \<le> - 8 \<longrightarrow> R = Inl IndexError"
    unfolding R_def using assms
    by (simp add: fst_conversation_step_next py_index_flow_below bind_def)
  have len: "int (length CONVERSATION_FLOW) - 1 = 5" by simp
  from a b c d e show ?thesis
    unfolding len R_def [symmetric] d_def [symmetric] by blast
qed

theorem completion_from_last_step_on_witness:
  "answered_sessions (session_id (step_request 5 ''country'' (Finite 1))) =
     Some \<lparr> session.company_id = ''co-1'', session.step = 5,
       session.data = [''revenue'' \<mapsto> Finite 2000000, ''ebitda'' \<mapsto> Finite 400000,
                       ''employees'' \<mapsto> Finite 25, ''industry'' \<mapsto> Finite 7,
                       ''growth_rate'' \<mapsto> Finite 15],
       session.started_at = ''2024-01-01T00:00:00'' \<rparr> \<and>
   signals_completion
     (fst (conversation_step 0 (step_request 5 ''country'' (Finite 1)) answered_sessions)) \<and>
   returns_in_progress
     (fst (conversation_step 0 (step_request 4 ''growth_rate'' (Finite 15)) answered_sessions)) \<and>
   \<not> signals_completion
     (fst (conversation_step 0 (step_request 4 ''growth_rate'' (Finite 15)) answered_sessions)) \<and>
   fst (conversation_step 0 (step_request (- 8) ''revenue'' (Finite 1)) answered_sessions)
     = Inl IndexError"
proof -
  have entry: "answered_sessions (session_id (step_request st fld v)) =
     Some \<lparr> session.company_id = ''co-1'', session.step = 5,
       session.data = [''revenue'' \<mapsto> Finite 2000000, ''ebitda'' \<mapsto> Finite 400000,
                       ''employees'' \<mapsto> Finite 25, ''industry'' \<mapsto> Finite 7,
                       ''growth_rate'' \<mapsto> Finite 15],
       session.started_at = ''2024-01-01T00:00:00'' \<rparr>" for st fld v
    by (simp add: answered_sessions_def answered_entry)
  have small: "\<bar>2000000 :: rat\<bar> \<le> 10 ^ 300"
  proof -
    have "(10::rat) ^ 7 \<le> 10 ^ 300" by (rule power_increasing) simp_all
    then show ?thesis by simp
  qed
  from completion_from_last_step_on [where sessions = answered_sessions and now_ts = 0
      and request = "step_request 5 ''country'' (Finite 1)", OF entry] small
  have a: "signals_completion
     (fst (conversation_step 0 (step_request 5 ''country'' (Finite 1)) answered_sessions))"
    by (simp add: step_request_def)
  from completion_from_last_step_on [where sessions = answered_sessions and now_ts = 0
      and request = "step_request 4 ''growth_rate'' (Finite 15)", OF entry]
  have b: "returns_in_progress
     (fst (conversation_step 0 (step_request 4 ''growth_rate'' (Finite 15)) answered_sessions))"
    and b': "\<not> signals_completion
     (fst (conversation_step 0 (step_request 4 ''growth_rate'' (Finite 15)) answered_sessions))"
    by (simp_all add: step_request_def)
  from completion_from_last_step_on [where sessions = answered_sessions and now_ts = 0
      and request = "step_request (- 8) ''revenue'' (Finite 1)", OF entry]
  have c: "fst (conversation_step 0 (step_request (- 8) ''revenue'' (Finite 1)) answered_sessions)
     = Inl IndexError"
    by (simp add: step_request_def)
  from entry a b b' c show ?thesis by simp
qed

lemma conversation_step_result:
  assumes "sessions (session_id request) = Some s"
    and "fst (conversation_step now_ts request sessions) = Inr response"
    and "valuation_result response = Some result"
  shows "response = complete_response result"
    and "mock_valuation now_ts ((session.data s)(field request \<mapsto> value request)) = Inr result"
proof -
  have "complete response"
  proof (cases "5 \<le> ConversationStepRequest.step request")
    case True
    with assms(1,2) show ?thesis
      by (auto simp: fst_conversation_step_last bind_Inr complete_response_def)
  next
    case False
    with assms show ?thesis
      by (auto simp: fst_conversation_step_next bind_Inr next_step_response_def)
  qed
  with assms(1,2) obtain result' where r: "response = complete_response result'"
    and m: "mock_valuation now_ts ((session.data s)(field request \<mapsto> value request)) = Inr result'"
    using conversation_step_completes(2) by blast
  with assms(3) have "result' = result" by (simp add: complete_response_def)
  with r m show "response = complete_response result"
    and "mock_valuation now_ts ((session.data s)(field request \<mapsto> value request)) = Inr result"
    by simp_all
qed

section \<open>Answers and defaults in the result\<close>

text \<open>
  Claim C4 says that a result is only produced once every field of the flow has an
  answer, so that no default is ever used. The handler does not look at the answers
  before it completes: a session just started that answers step 5 gets a result, with
  only the country recorded and the default revenue 1000000 in the result.
\<close>

theorem coverage_counterexample:
  "conversation_step 0 (step_request 5 ''country'' (Finite 1)) fresh_sessions =
     (Inr (complete_response
        \<lparr> valuation_id = ''val_0'', equity_value = 2500000,
          valuation_range_min = 2000000, valuation_range_max = 3000000,
          confidence_score = Finite (7656119366529843 / 9007199254740992),
          methodology = ''DCF + Market Multiples'', company_name = ''Demo Company'',
          revenue = PyInt 1000000, ebitda = PyFloat (Finite 200000),
          employees = PyInt 10, industry = PyStr ''Technology'',
          country = PyFloat (Finite 1), growth_rate = PyInt 15 \<rparr>),
      [''sess-1'' \<mapsto>
         \<lparr> session.company_id = ''co-1'', session.step = 6,
           session.data = [''country'' \<mapsto> Finite 1],
           session.started_at = ''2024-01-01T00:00:00'' \<rparr>]) \<and>
   [''country'' \<mapsto> Finite 1] ''revenue'' = None"
proof -
  have v: "mock_valuation 0 [''country'' \<mapsto> Finite 1] =
     Inr \<lparr> valuation_id = ''val_0'', equity_value = 2500000,
          valuation_range_min = 2000000, valuation_range_max = 3000000,
          confidence_score = Finite (7656119366529843 / 9007199254740992),
          methodology = ''DCF + Market Multiples'', company_name = ''Demo Company'',
          revenue = PyInt 1000000, ebitda = PyFloat (Finite 200000),
          employees = PyInt 10, industry = PyStr ''Technology'',
          country = PyFloat (Finite 1), growth_rate = PyInt 15 \<rparr>"
    by code_simp
  show ?thesis
    by (simp add: prod_eq_iff fresh_sessions_eq step_request_def snd_conversation_step
          fst_conversation_step_last v bind_def)
qed

text \<open>
  Claim C4, as the handler has it. Whenever a step call produces a valuation result,
  the answers of the session hold the value of that call under its field; each field
  echoed in the result is the recorded answer when there is one and otherwise its
  default (revenue 1000000, ebitda a fifth of the revenue, employees 10, industry
  "Technology", country "Belgium", growth rate 15).
\<close>

theorem result_from_answers_or_defaults:
  assumes "sessions (session_id request) = Some s"
    and "fst (conversation_step now_ts request sessions) = Inr response"
    and "valuation_result response = Some result"
  shows "\<exists>s'. snd (conversation_step now_ts request sessions) (session_id request) = Some s' \<and>
           session.data s' (field request) = Some (value request) \<and>
           revenue result = get_default (session.data s') ''revenue'' (PyInt 1000000) \<and>
           (\<exists>e. mul_float (revenue result) (float_lit (2 / 10)) = Inr e \<and>
                ebitda result = get_default (session.data s') ''ebitda'' (PyFloat e)) \<and>
           employees result = get_default (session.data s') ''employees'' (PyInt 10) \<and>
           industry result = get_default (session.data s') ''industry'' (PyStr ''Technology'') \<and>
           country result = get_default (session.data s') ''country'' (PyStr ''Belgium'') \<and>
           growth_rate result = get_default (session.data s') ''growth_rate'' (PyInt 15)"
proof -
  define d where "d = (session.data s)(field request \<mapsto> value request)"
  define s' where "s' = s\<lparr> session.data := d,
               session.step := ConversationStepRequest.step request + 1 \<rparr>"
  have m: "mock_valuation now_ts d = Inr result"
    unfolding d_def using assms by (rule conversation_step_result(2))
  from m obtain e v lo hi where
    e: "mul_float (get_default d ''revenue'' (PyInt 1000000)) (float_lit (2 / 10)) = Inr e"
    and "int_times (get_default d ''revenue'' (PyInt 1000000)) (float_lit (25 / 10)) = Inr v"
    and "int_times (PyInt v) (float_lit (8 / 10)) = Inr lo"
    and "int_times (PyInt v) (float_lit (12 / 10)) = Inr hi"
    and r: "result = \<lparr> valuation_id = ''val_'' @ str_int now_ts,
                  equity_value = v,
                  valuation_range_min = lo,
                  valuation_range_max = hi,
                  confidence_score = float_lit (85 / 100),
                  methodology = ''DCF + Market Multiples'',
                  company_name = ''Demo Company'',
                  revenue = get_default d ''revenue'' (PyInt 1000000),
                  ebitda = get_default d ''ebitda'' (PyFloat e),
                  employees = get_default d ''employees'' (PyInt 10),
                  industry = get_default d ''industry'' (PyStr ''Technology''),
                  country = get_default d ''country'' (PyStr ''Belgium''),
                  growth_rate = get_default d ''growth_rate'' (PyInt 15) \<rparr>"
    by (rule mock_valuation_Inr)
  have data: "session.data s' = d" by (simp add: s'_def)
  have after: "snd (conversation_step now_ts request sessions) (session_id request) = Some s'"
    using assms(1) by (simp add: snd_conversation_step d_def s'_def)
  have own: "session.data s' (field request) = Some (value request)"
    by (simp add: data d_def)
  have rev: "revenue result = get_default (session.data s') ''revenue'' (PyInt 1000000)"
    by (simp add: r data)
  have ebi: "\<exists>e. mul_float (revenue result) (float_lit (2 / 10)) = Inr e \<and>
                ebitda result = get_default (session.data s') ''ebitda'' (PyFloat e)"
  proof (intro exI conjI)
    show "mul_float (revenue result) (float_lit (2 / 10)) = Inr e"
      using e by (simp add: r)
    show "ebitda result = get_default (session.data s') ''ebitda'' (PyFloat e)"
      by (simp add: r data)
  qed
  have emp: "employees result = get_default (session.data s') ''employees'' (PyInt 10)"
    by (simp add: r data)
  have ind: "industry result = get_default (session.data s') ''industry'' (PyStr ''Technology'')"
    by (simp add: r data)
  have cou: "country result = get_default (session.data s') ''country'' (PyStr ''Belgium'')"
    by (simp add: r data)
  have gro: "growth_rate result = get_default (session.data s') ''growth_rate'' (PyInt 15)"
    by (simp add: r data)
  from after own rev ebi emp ind cou gro show ?thesis by blast
qed


lemma answered_valuation:
  "mock_valuation 0 [''revenue'' \<mapsto> Finite 2000000, ''ebitda'' \<mapsto> Finite 400000,
                     ''employees'' \<mapsto> Finite 25, ''industry'' \<mapsto> Finite 7,
                     ''growth_rate'' \<mapsto> Finite 15, ''country'' \<mapsto> Finite 1] =
   Inr (answered_result (Finite 2000000) 5000000 4000000 6000000)"
  by code_simp

lemma answered_valuation_quarter:
  "mock_valuation 0 [''revenue'' \<mapsto> Finite (40001 / 4), ''ebitda'' \<mapsto> Finite 400000,
                     ''employees'' \<mapsto> Finite 25, ''industry'' \<mapsto> Finite 7,
                     ''growth_rate'' \<mapsto> Finite 15, ''country'' \<mapsto> Finite 1] =
   Inr (answered_result (Finite (40001 / 4)) 25000 20000 30000)"
  by code_simp

lemma answered_step_5:
  assumes "mock_valuation 0 [''revenue'' \<mapsto> r, ''ebitda'' \<mapsto> Finite 400000,
                     ''employees'' \<mapsto> Finite 25, ''industry'' \<mapsto> Finite 7,
                     ''growth_rate'' \<mapsto> Finite 15, ''country'' \<mapsto> Finite 1] = Inr result"
  shows "conversation_step 0 (step_request 5 ''country'' (Finite 1)) (answered_with r) =
     (Inr (complete_response result),
      [''sess-1'' \<mapsto>
         \<lparr> session.company_id = ''co-1'', session.step = 6,
           session.data = [''revenue'' \<mapsto> r, ''ebitda'' \<mapsto> Finite 400000,
                     ''employees'' \<mapsto> Finite 25, ''industry'' \<mapsto> Finite 7,
                     ''growth_rate'' \<mapsto> Finite 15, ''country'' \<mapsto> Finite 1],
           session.started_at = ''2024-01-01T00:00:00'' \<rparr>])"
  using assms
  by (simp add: prod_eq_iff answered_with_eq step_request_def snd_conversation_step
        fst_conversation_step_last bind_def)

theorem result_from_answers_or_defaults_witness:
  "answered_sessions (session_id (step_request 5 ''country'' (Finite 1))) =
     Some \<lparr> session.company_id = ''co-1'', session.step = 5,
       session.data = [''revenue'' \<mapsto> Finite 2000000, ''ebitda'' \<mapsto> Finite 400000,
                       ''employees'' \<mapsto> Finite 25, ''industry'' \<mapsto> Finite 7,
                       ''growth_rate'' \<mapsto> Finite 15],
       session.started_at = ''2024-01-01T00:00:00'' \<rparr> \<and>
   fst (conversation_step 0 (step_request 5 ''country'' (Finite 1)) answered_sessions) =
     Inr (complete_response (answered_result (Finite 2000000) 5000000 4000000 6000000)) \<and>
   valuation_result (complete_response (answered_result (Finite 2000000) 5000000 4000000 6000000))
     = Some (answered_result (Finite 2000000) 5000000 4000000 6000000) \<and>
   (\<exists>s'. snd (conversation_step 0 (step_request 5 ''country'' (Finite 1)) answered_sessions)
             ''sess-1'' = Some s' \<and>
         session.data s' ''country'' = Some (Finite 1) \<and>
         revenue (answered_result (Finite 2000000) 5000000 4000000 6000000) =
           get_default (session.data s') ''revenue'' (PyInt 1000000) \<and>
         country (answered_result (Finite 2000000) 5000000 4000000 6000000) =
           get_default (session.data s') ''country'' (PyStr ''Belgium''))"
proof -
  let ?r = "answered_result (Finite 2000000) 5000000 4000000 6000000"
  have entry: "answered_sessions (session_id (step_request 5 ''country'' (Finite 1))) =
     Some \<lparr> session.company_id = ''co-1'', session.step = 5,
       session.data = [''revenue'' \<mapsto> Finite 2000000, ''ebitda'' \<mapsto> Finite 400000,
                       ''employees'' \<mapsto> Finite 25, ''industry'' \<mapsto> Finite 7,
                       ''growth_rate'' \<mapsto> Finite 15],
       session.started_at = ''2024-01-01T00:00:00'' \<rparr>"
    by (simp add: answered_sessions_def answered_entry)
  have resp: "fst (conversation_step 0 (step_request 5 ''country'' (Finite 1)) answered_sessions) =
     Inr (complete_response ?r)"
    by (simp add: answered_sessions_def answered_step_5 [OF answered_valuation])
  have res: "valuation_result (complete_response ?r) = Some ?r"
    by (simp add: complete_response_def)
  from result_from_answers_or_defaults [where sessions = answered_sessions and now_ts = 0
      and request = "step_request 5 ''country'' (Finite 1)", OF entry resp res]
  have "\<exists>s'. snd (conversation_step 0 (step_request 5 ''country'' (Finite 1)) answered_sessions)
             ''sess-1'' = Some s' \<and>
         session.data s' ''country'' = Some (Finite 1) \<and>
         revenue ?r = get_default (session.data s') ''revenue'' (PyInt 1000000) \<and>
         country ?r = get_default (session.data s') ''country'' (PyStr ''Belgium'')"
    by (auto simp: step_request_def)
  with entry resp res show ?thesis by simp
qed

section \<open>Text answers\<close>

text \<open>
  Claim C5. The flow asks for the industry and the country as text, but the request
  model declares \<open>value\<close> a float: the final step of the example, submitted with the
  text "Belgium", is refused when the request is validated, the handler does not run
  and the session stays as it was. Submitted with a number instead, the same step
  completes with the estimate 5000000 and the range from 4000000 to 6000000.
\<close>

theorem text_country_rejected:
  "post_conversation_step 0 ''co-1'' ''sess-1'' 5 ''country'' (RawText ''Belgium'')
     answered_sessions = (Inl RequestValidationError, answered_sessions) \<and>
   fst (post_conversation_step 0 ''co-1'' ''sess-1'' 5 ''country'' (RawNumber (Finite 1))
     answered_sessions) =
     Inr (complete_response (answered_result (Finite 2000000) 5000000 4000000 6000000)) \<and>
   equity_value (answered_result (Finite 2000000) 5000000 4000000 6000000) = 5000000 \<and>
   valuation_range_min (answered_result (Finite 2000000) 5000000 4000000 6000000) = 4000000 \<and>
   valuation_range_max (answered_result (Finite 2000000) 5000000 4000000 6000000) = 6000000"
proof -
  have "float_of_str ''Belgium'' = None" by code_simp
  then have a: "post_conversation_step 0 ''co-1'' ''sess-1'' 5 ''country'' (RawText ''Belgium'')
     answered_sessions = (Inl RequestValidationError, answered_sessions)"
    by (simp add: post_conversation_step_def validate_value_def)
  have "post_conversation_step 0 ''co-1'' ''sess-1'' 5 ''country'' (RawNumber (Finite 1))
     answered_sessions =
     conversation_step 0 (step_request 5 ''country'' (Finite 1)) answered_sessions"
    by (simp add: post_conversation_step_def validate_value_def step_request_def)
  then have b: "fst (post_conversation_step 0 ''co-1'' ''sess-1'' 5 ''country'' (RawNumber (Finite 1))
     answered_sessions) =
     Inr (complete_response (answered_result (Finite 2000000) 5000000 4000000 6000000))"
    by (simp add: answered_sessions_def answered_step_5 [OF answered_valuation])
  from a b show ?thesis by (simp add: answered_result_def)
qed

lemma int_times_finite_revenue:
  assumes "int_times (PyFloat (Finite q)) (float_lit (25 / 10)) = Inr v"
  shows "\<exists>r. round_double (q * (25 / 10)) = Finite r \<and> v = trunc_rat r"
proof (cases "round_double (q * (5 / 2))")
  case (Finite r)
  with assms show ?thesis
    by (simp add: int_times_def mul_float_def float_lit_5_2 float_mul_def bind_def
          int_of_float_def)
qed (use assms in \<open>simp_all add: int_times_def mul_float_def float_lit_5_2 float_mul_def bind_def
          int_of_float_def\<close>)

section \<open>The valuation formula\<close>

text \<open>
  Claim C6 says that the estimate is \<open>round(revenue \<times> 2.5)\<close>. The handler converts with
  \<open>int\<close>, which cuts the fraction off: for the valid revenue 10000.25 the product is
  25000.625 and the estimate is 25000, where rounding gives 25001.
\<close>

theorem estimate_counterexample:
  "\<not> spec_violates_rule (CONVERSATION_FLOW ! 0) (Finite (40001 / 4)) \<and>
   fst (conversation_step 0 (step_request 5 ''country'' (Finite 1))
          (answered_with (Finite (40001 / 4)))) =
     Inr (complete_response (answered_result (Finite (40001 / 4)) 25000 20000 30000)) \<and>
   equity_value (answered_result (Finite (40001 / 4)) 25000 20000 30000) = 25000 \<and>
   spec_estimate (40001 / 4) = 25001"
proof -
  have a: "\<not> spec_violates_rule (CONVERSATION_FLOW ! 0) (Finite (40001 / 4))"
    by (simp add: spec_violates_rule_def CONVERSATION_FLOW_def)
  have b: "fst (conversation_step 0 (step_request 5 ''country'' (Finite 1))
          (answered_with (Finite (40001 / 4)))) =
     Inr (complete_response (answered_result (Finite (40001 / 4)) 25000 20000 30000))"
    by (simp add: answered_step_5 [OF answered_valuation_quarter])
  have c: "spec_estimate (40001 / 4) = 25001"
    by (simp add: spec_estimate_def round_def floor_eq_iff)
  from a b c show ?thesis by (simp add: answered_result_def)
qed

text \<open>
  Claim C6, as the handler has it. For every completing step call the result carries
  estimate = \<open>int(revenue * 2.5)\<close>, low = \<open>int(estimate * 0.8)\<close>, high =
  \<open>int(estimate * 1.2)\<close>, with the products taken in double precision and \<open>int\<close>
  cutting towards zero, the confidence 0.85 and the methodology "DCF + Market
  Multiples"; the revenue is the recorded answer, or 1000000 when none is recorded. For a
  recorded finite revenue the estimate is the truncation of the rounded product. The
  result is the same at any other time of the call but for its identifier.
\<close>

theorem valuation_formula:
  assumes "sessions (session_id request) = Some s"
    and "fst (conversation_step now_ts request sessions) = Inr response"
    and "complete response"
  shows "\<exists>result.
           valuation_result response = Some result \<and>
           int_times (get_default ((session.data s)(field request \<mapsto> value request))
                        ''revenue'' (PyInt 1000000)) (float_lit (25 / 10))
             = Inr (equity_value result) \<and>
           int_times (PyInt (equity_value result)) (float_lit (8 / 10))
             = Inr (valuation_range_min result) \<and>
           int_times (PyInt (equity_value result)) (float_lit (12 / 10))
             = Inr (valuation_range_max result) \<and>
           confidence_score result = float_lit (85 / 100) \<and>
           methodology result = ''DCF + Market Multiples'' \<and>
           (\<forall>q. ((session.data s)(field request \<mapsto> value request)) ''revenue'' = Some (Finite q)
              \<longrightarrow> (\<exists>r. round_double (q * (25 / 10)) = Finite r \<and>
                       equity_value result = trunc_rat r)) \<and>
           (\<forall>ts'. mock_valuation ts' ((session.data s)(field request \<mapsto> value request))
                    = Inr (result\<lparr> valuation_id := ''val_'' @ str_int ts' \<rparr>))"
proof -
  define d where "d = (session.data s)(field request \<mapsto> value request)"
  from assms obtain result where resp: "response = complete_response result"
    and m: "mock_valuation now_ts d = Inr result"
    unfolding d_def using conversation_step_completes(2) by blast
  from m obtain e v lo hi where
    "mul_float (get_default d ''revenue'' (PyInt 1000000)) (float_lit (2 / 10)) = Inr e"
    and v: "int_times (get_default d ''revenue'' (PyInt 1000000)) (float_lit (25 / 10)) = Inr v"
    and lo: "int_times (PyInt v) (float_lit (8 / 10)) = Inr lo"
    and hi: "int_times (PyInt v) (float_lit (12 / 10)) = Inr hi"
    and r: "result = \<lparr> valuation_id = ''val_'' @ str_int now_ts,
                  equity_value = v,
                  valuation_range_min = lo,
                  valuation_range_max = hi,
                  confidence_score = float_lit (85 / 100),
                  methodology = ''DCF + Market Multiples'',
                  company_name = ''Demo Company'',
                  revenue = get_default d ''revenue'' (PyInt 1000000),
                  ebitda = get_default d ''ebitda'' (PyFloat e),
                  employees = get_default d ''employees'' (PyInt 10),
                  industry = get_default d ''industry'' (PyStr ''Technology''),
                  country = get_default d ''country'' (PyStr ''Belgium''),
                  growth_rate = get_default d ''growth_rate'' (PyInt 15) \<rparr>"
    by (rule mock_valuation_Inr)
  have ev: "equity_value result = v" and lov: "valuation_range_min result = lo"
    and hiv: "valuation_range_max result = hi"
    by (simp_all add: r)
  have c1: "valuation_result response = Some result"
    by (simp add: resp complete_response_def)
  have c2: "int_times (get_default d ''revenue'' (PyInt 1000000)) (float_lit (25 / 10))
             = Inr (equity_value result)"
    using v ev by simp
  have c3: "int_times (PyInt (equity_value result)) (float_lit (8 / 10))
             = Inr (valuation_range_min result)"
    using lo ev lov by simp
  have c4: "int_times (PyInt (equity_value result)) (float_lit (12 / 10))
             = Inr (valuation_range_max result)"
    using hi ev hiv by simp
  have c5: "confidence_score result = float_lit (85 / 100)"
    by (simp add: r)
  have c6: "methodology result = ''DCF + Market Multiples''"
    by (simp add: r)
  have c7: "\<forall>q. d ''revenue'' = Some (Finite q)
              \<longrightarrow> (\<exists>r. round_double (q * (25 / 10)) = Finite r \<and>
                       equity_value result = trunc_rat r)"
  proof (intro allI impI)
    fix q assume "d ''revenue'' = Some (Finite q)"
    then have "get_default d ''revenue'' (PyInt 1000000) = PyFloat (Finite q)"
      by (simp add: get_default_def)
    with c2 have "int_times (PyFloat (Finite q)) (float_lit (25 / 10)) = Inr (equity_value result)"
      by simp
    then show "\<exists>r. round_double (q * (25 / 10)) = Finite r \<and> equity_value result = trunc_rat r"
      by (rule int_times_finite_revenue)
  qed
  have c8: "\<forall>ts'. mock_valuation ts' d = Inr (result\<lparr> valuation_id := ''val_'' @ str_int ts' \<rparr>)"
    using mock_valuation_other_time [OF m] by blast
  from c1 c2 c3 c4 c5 c6 c7 c8 show ?thesis
    unfolding d_def by blast
qed


theorem valuation_formula_witness:
  "answered_sessions (session_id (step_request 5 ''country'' (Finite 1))) =
     Some \<lparr> session.company_id = ''co-1'', session.step = 5,
       session.data = [''revenue'' \<mapsto> Finite 2000000, ''ebitda'' \<mapsto> Finite 400000,
                       ''employees'' \<mapsto> Finite 25, ''industry'' \<mapsto> Finite 7,
                       ''growth_rate'' \<mapsto> Finite 15],
       session.started_at = ''2024-01-01T00:00:00'' \<rparr> \<and>
   fst (conversation_step 0 (step_request 5 ''country'' (Finite 1)) answered_sessions) =
     Inr (complete_response (answered_result (Finite 2000000) 5000000 4000000 6000000)) \<and>
   complete (complete_response (answered_result (Finite 2000000) 5000000 4000000 6000000)) \<and>
   int_times (PyFloat (Finite 2000000)) (float_lit (25 / 10)) = Inr 5000000 \<and>
   int_times (PyInt 5000000) (float_lit (8 / 10)) = Inr 4000000 \<and>
   int_times (PyInt 5000000) (float_lit (12 / 10)) = Inr 6000000 \<and>
   round_double (2000000 * (25 / 10)) = Finite 5000000 \<and>
   trunc_rat 5000000 = 5000000"
proof -
  let ?r = "answered_result (Finite 2000000) 5000000 4000000 6000000"
  have entry: "answered_sessions (session_id (step_request 5 ''country'' (Finite 1))) =
     Some \<lparr> session.company_id = ''co-1'', session.step = 5,
       session.data = [''revenue'' \<mapsto> Finite 2000000, ''ebitda'' \<mapsto> Finite 400000,
                       ''employees'' \<mapsto> Finite 25, ''industry'' \<mapsto> Finite 7,
                       ''growth_rate'' \<mapsto> Finite 15],
       session.started_at = ''2024-01-01T00:00:00'' \<rparr>"
    by (simp add: answered_sessions_def answered_entry)
  have resp: "fst (conversation_step 0 (step_request 5 ''country'' (Finite 1)) answered_sessions) =
     Inr (complete_response ?r)"
    by (simp add: answered_sessions_def answered_step_5 [OF answered_valuation])
  have compl: "complete (complete_response ?r)"
    by (simp add: complete_response_def)
  from valuation_formula [where sessions = answered_sessions and now_ts = 0
      and request = "step_request 5 ''country'' (Finite 1)", OF entry resp compl]
  obtain result where res: "valuation_result (complete_response ?r) = Some result"
    and a: "int_times (get_default
              ([''revenue'' \<mapsto> Finite 2000000, ''ebitda'' \<mapsto> Finite 400000,
                ''employees'' \<mapsto> Finite 25, ''industry'' \<mapsto> Finite 7,
                ''growth_rate'' \<mapsto> Finite 15, ''country'' \<mapsto> Finite 1])
              ''revenue'' (PyInt 1000000)) (float_lit (25 / 10)) = Inr (equity_value result)"
    and b: "int_times (PyInt (equity_value result)) (float_lit (8 / 10))
             = Inr (valuation_range_min result)"
    and c: "int_times (PyInt (equity_value result)) (float_lit (12 / 10))
             = Inr (valuation_range_max result)"
    by (auto simp: step_request_def)
  from res have result: "result = ?r" by (simp add: complete_response_def)
  have a': "int_times (PyFloat (Finite 2000000)) (float_lit (25 / 10)) = Inr 5000000"
    using a by (simp add: result answered_result_def get_default_def)
  have b': "int_times (PyInt 5000000) (float_lit (8 / 10)) = Inr 4000000"
    using b by (simp add: result answered_result_def)
  have c': "int_times (PyInt 5000000) (float_lit (12 / 10)) = Inr 6000000"
    using c by (simp add: result answered_result_def)
  have d': "round_double (2000000 * (25 / 10)) = Finite 5000000" by code_simp
  have e': "trunc_rat 5000000 = 5000000" by (simp add: trunc_rat_def)
  from entry resp compl a' b' c' d' e' show ?thesis by simp
qed

section \<open>Reachable step ordinals\<close>

lemma snd_start_conversation:
  "snd (start_conversation new_id now_iso request sessions) =
     sessions(new_id \<mapsto>
       \<lparr> session.company_id = StartConversationRequest.company_id request,
         session.step = 0, session.data = Map.empty, session.started_at = now_iso \<rparr>)"
  by (simp add: start_conversation_def)

lemma reachable_answered:
  assumes "reachable sessions" "sessions sid = Some s" "session.step s \<noteq> 0"
  shows "session.data s \<noteq> Map.empty"
  using assms
proof (induction arbitrary: sid s rule: reachable.induct)
  case initial
  then show ?case by simp
next
  case (started sessions new_id now_iso request)
  then show ?case
    by (cases "sid = new_id") (auto simp: snd_start_conversation)
next
  case (stepped sessions now_ts request)
  show ?case
  proof (cases "sessions (session_id request)")
    case None
    with stepped show ?thesis by (simp add: conversation_step_unknown)
  next
    case (Some s0)
    show ?thesis
    proof (cases "sid = session_id request")
      case True
      with stepped.prems Some have
        "session.data s = (session.data s0)(field request \<mapsto> value request)"
        by (auto simp: snd_conversation_step)
      then show ?thesis by (metis map_upd_nonempty)
    next
      case False
      with stepped Some show ?thesis by (simp add: snd_conversation_step)
    qed
  qed
qed

lemma reachable_fresh: "reachable fresh_sessions"
  unfolding fresh_sessions_def by (intro reachable.started reachable.initial)

lemma reachable_answer: "reachable sessions \<Longrightarrow> reachable (answer st fld v sessions)"
  unfolding answer_def by (rule reachable.stepped)

lemma answer_fresh:
  "answer st fld v fresh_sessions = [''sess-1'' \<mapsto>
     \<lparr> session.company_id = ''co-1'', session.step = st + 1,
       session.data = [fld \<mapsto> v], session.started_at = ''2024-01-01T00:00:00'' \<rparr>]"
  by (simp add: fresh_sessions_eq answer_existing)

text \<open>
  Claim C7 says that the stored ordinal of a reachable session stays within 0 and the
  number of steps, that a session at that number has every field answered, and that
  it is absorbing. A session just started that answers step 10 is at ordinal 11; one
  that answers step 5 is at ordinal 6 with the country as its only answer, and a
  further call for step 0 takes it back to ordinal 1.
\<close>

theorem ordinal_bound_counterexample:
  "reachable (answer 10 ''country'' (Finite 1) fresh_sessions) \<and>
   answer 10 ''country'' (Finite 1) fresh_sessions ''sess-1'' =
     Some \<lparr> session.company_id = ''co-1'', session.step = 11,
            session.data = [''country'' \<mapsto> Finite 1],
            session.started_at = ''2024-01-01T00:00:00'' \<rparr> \<and>
   \<not> (11 \<le> int (length CONVERSATION_FLOW)) \<and>
   reachable (answer 5 ''country'' (Finite 1) fresh_sessions) \<and>
   answer 5 ''country'' (Finite 1) fresh_sessions ''sess-1'' =
     Some \<lparr> session.company_id = ''co-1'', session.step = int (length CONVERSATION_FLOW),
            session.data = [''country'' \<mapsto> Finite 1],
            session.started_at = ''2024-01-01T00:00:00'' \<rparr> \<and>
   [''country'' \<mapsto> Finite 1] ''revenue'' = None \<and>
   map_option session.step
     (answer 0 ''revenue'' (Finite 2000000) (answer 5 ''country'' (Finite 1) fresh_sessions)
        ''sess-1'') = Some 1"
proof -
  have r10: "reachable (answer 10 ''country'' (Finite 1) fresh_sessions)"
    and r5: "reachable (answer 5 ''country'' (Finite 1) fresh_sessions)"
    by (intro reachable_answer reachable_fresh)+
  have e10: "answer 10 ''country'' (Finite 1) fresh_sessions ''sess-1'' =
     Some \<lparr> session.company_id = ''co-1'', session.step = 11,
            session.data = [''country'' \<mapsto> Finite 1],
            session.started_at = ''2024-01-01T00:00:00'' \<rparr>"
    by (simp add: answer_fresh)
  have e5: "answer 5 ''country'' (Finite 1) fresh_sessions ''sess-1'' =
     Some \<lparr> session.company_id = ''co-1'', session.step = int (length CONVERSATION_FLOW),
            session.data = [''country'' \<mapsto> Finite 1],
            session.started_at = ''2024-01-01T00:00:00'' \<rparr>"
    by (simp add: answer_fresh)
  have lower: "map_option session.step
     (answer 0 ''revenue'' (Finite 2000000) (answer 5 ''country'' (Finite 1) fresh_sessions)
        ''sess-1'') = Some 1"
    by (simp add: answer_fresh answer_existing)
  have rest: "\<not> (11 \<le> int (length CONVERSATION_FLOW))"
    "[''country'' \<mapsto> Finite 1] ''revenue'' = None"
    by simp_all
  from r10 e10 rest(1) r5 e5 rest(2) lower show ?thesis
    by (intro conjI)
qed

text \<open>
  Claim C7, as the handler has it. In every store reachable by calls of the two
  endpoints, a session whose ordinal is not 0 has at least one answer recorded; every
  integer is the stored ordinal of some reachable session; and a session whose ordinal
  is the number of steps is not absorbing: a step call sets its ordinal to the declared
  step plus one like on any other session.
\<close>

theorem reachable_ordinals:
  "(\<forall>sessions sid s. reachable sessions \<and> sessions sid = Some s \<and> session.step s \<noteq> 0
       \<longrightarrow> session.data s \<noteq> Map.empty) \<and>
   (\<forall>n. \<exists>sessions s. reachable sessions \<and> sessions ''sess-1'' = Some s \<and> session.step s = n) \<and>
   (\<forall>sessions request s now_ts.
       reachable sessions \<and> sessions (session_id request) = Some s \<and>
       session.step s = int (length CONVERSATION_FLOW)
       \<longrightarrow> map_option session.step
             (snd (conversation_step now_ts request sessions) (session_id request))
           = Some (ConversationStepRequest.step request + 1))"
proof (intro conjI allI impI)
  fix sessions :: sessions and sid :: string and s :: session
  assume "reachable sessions \<and> sessions sid = Some s \<and> session.step s \<noteq> 0"
  then show "session.data s \<noteq> Map.empty"
    using reachable_answered by blast
next
  fix n :: int
  have "reachable (answer (n - 1) ''revenue'' (Finite 2000000) fresh_sessions)"
    by (intro reachable_answer reachable_fresh)
  moreover have "answer (n - 1) ''revenue'' (Finite 2000000) fresh_sessions ''sess-1'' =
      Some \<lparr> session.company_id = ''co-1'', session.step = n,
            session.data = [''revenue'' \<mapsto> Finite 2000000],
            session.started_at = ''2024-01-01T00:00:00'' \<rparr>"
    by (simp add: answer_fresh)
  moreover have "session.step \<lparr> session.company_id = ''co-1'', session.step = n,
            session.data = [''revenue'' \<mapsto> Finite 2000000],
            session.started_at = ''2024-01-01T00:00:00'' \<rparr> = n"
    by simp
  ultimately show "\<exists>sessions s. reachable sessions \<and> sessions ''sess-1'' = Some s \<and> session.step s = n"
    by blast
next
  fix sessions :: sessions and request :: ConversationStepRequest
    and s :: session and now_ts :: int
  assume "reachable sessions \<and> sessions (session_id request) = Some s \<and>
       session.step s = int (length CONVERSATION_FLOW)"
  then show "map_option session.step
             (snd (conversation_step now_ts request sessions) (session_id request))
           = Some (ConversationStepRequest.step request + 1)"
    by (simp add: snd_conversation_step)
qed


theorem reachable_ordinals_witness:
  "reachable (answer 5 ''country'' (Finite 1) fresh_sessions) \<and>
   answer 5 ''country'' (Finite 1) fresh_sessions ''sess-1'' =
     Some \<lparr> session.company_id = ''co-1'', session.step = 6,
            session.data = [''country'' \<mapsto> Finite 1],
            session.started_at = ''2024-01-01T00:00:00'' \<rparr> \<and>
   session.data \<lparr> session.company_id = ''co-1'', session.step = 6,
            session.data = [''country'' \<mapsto> Finite 1],
            session.started_at = ''2024-01-01T00:00:00'' \<rparr> \<noteq> Map.empty \<and>
   (\<exists>sessions s. reachable sessions \<and> sessions ''sess-1'' = Some s \<and> session.step s = - 3) \<and>
   map_option session.step
     (snd (conversation_step 0 (step_request 0 ''revenue'' (Finite 2000000))
             (answer 5 ''country'' (Finite 1) fresh_sessions)) ''sess-1'') = Some 1"
proof -
  let ?S = "answer 5 ''country'' (Finite 1) fresh_sessions"
  let ?s = "\<lparr> session.company_id = ''co-1'', session.step = 6,
            session.data = [''country'' \<mapsto> Finite 1],
            session.started_at = ''2024-01-01T00:00:00'' \<rparr>"
  have r: "reachable ?S"
    by (intro reachable_answer reachable_fresh)
  have e: "?S ''sess-1'' = Some ?s"
    by (simp add: answer_fresh)
  have nz: "session.step ?s \<noteq> 0" by simp
  have six: "session.step ?s = int (length CONVERSATION_FLOW)" by simp
  have e': "?S (session_id (step_request 0 ''revenue'' (Finite 2000000))) = Some ?s"
    using e by (simp add: step_request_def)
  note all = reachable_ordinals
  from all r e nz have a: "session.data ?s \<noteq> Map.empty" by blast
  from all have b: "\<exists>sessions s. reachable sessions \<and> sessions ''sess-1'' = Some s \<and>
      session.step s = - 3" by blast
  from all r e' six have "map_option session.step
     (snd (conversation_step 0 (step_request 0 ''revenue'' (Finite 2000000)) ?S)
        (session_id (step_request 0 ''revenue'' (Finite 2000000))))
     = Some (ConversationStepRequest.step (step_request 0 ''revenue'' (Finite 2000000)) + 1)"
    by blast
  then have c: "map_option session.step
     (snd (conversation_step 0 (step_request 0 ''revenue'' (Finite 2000000)) ?S) ''sess-1'')
     = Some 1"
    by (simp add: step_request_def)
  from r e a b c show ?thesis by (intro conjI)
qed

end
